theory Spec2Isabelle
  imports Complex_Main "HOL-Library.Sublist"
begin

section \<open>Python values, exceptions and outcomes\<close>

text \<open>
  The repository holds the pipeline twice: \<^verbatim>\<open>server.py\<close> (httpx, with the retry of
  Stage 1) and \<^verbatim>\<open>indy_trash_server.py\<close> (requests, without it). The functions of
  \<^verbatim>\<open>server.py\<close> keep their names here; those of \<^verbatim>\<open>indy_trash_server.py\<close> carry the
  prefix \<open>its_\<close>. What the two files share word for word is modelled once.

  The three stages work on whatever \<^verbatim>\<open>response.json()\<close> hands them: \<^verbatim>\<open>None\<close>, a
  bool, an int, a float, a str, a list or a dict with string keys. The annotations
  \<^verbatim>\<open>Dict[str, Any]\<close> of the source are not enforced at run time, so the model keeps
  all seven shapes. A dict is an association list read with \<open>map_of\<close>; a float is carried
  as a real (it is only tested for truth and passed on, never computed with); a character
  of a \<open>string\<close> stands for one code point of a Python str.
\<close>

datatype pyval =
    PyNone
  | PyBool bool
  | PyInt int
  | PyFloat real
  | PyStr string
  | PyList "pyval list"
  | PyDict "(string \<times> pyval) list"

text \<open>
  The exceptions that occur. \<open>HTTPStatusError c\<close> is what \<^verbatim>\<open>raise_for_status()\<close>
  raises for status code \<open>c\<close> (\<^verbatim>\<open>httpx.HTTPStatusError\<close>, \<^verbatim>\<open>requests.exceptions.HTTPError\<close>),
  \<open>RequestError\<close> a transport fault (\<^verbatim>\<open>httpx.RequestError\<close>, the other
  \<^verbatim>\<open>requests.exceptions.RequestException\<close>s), \<open>OtherException\<close> any exception of a
  network call that is neither of the two, \<open>RecursionError\<close> what the interpreter raises
  when calls are nested deeper than it allows.
\<close>

datatype pyexc =
    AttributeError
  | TypeError
  | KeyError
  | IndexError
  | HTTPStatusError nat
  | RequestError
  | OtherException
  | RecursionError

datatype 'a outcome = Return 'a | Raise pyexc

definition bind_outcome :: "'a outcome \<Rightarrow> ('a \<Rightarrow> 'b outcome) \<Rightarrow> 'b outcome" where
  "bind_outcome m f = (case m of Return x \<Rightarrow> f x | Raise e \<Rightarrow> Raise e)"

text \<open>\<^verbatim>\<open>a and b\<close> in a condition: \<open>b\<close> counts only when \<open>a\<close> is true.\<close>

definition py_and :: "bool outcome \<Rightarrow> bool outcome \<Rightarrow> bool outcome" where
  "py_and a b = bind_outcome a (\<lambda>x. if x then b else Return False)"

text \<open>Truth value of an object (\<^verbatim>\<open>if v:\<close>, \<^verbatim>\<open>not v\<close>).\<close>

fun py_truthy :: "pyval \<Rightarrow> bool" where
  "py_truthy PyNone = False"
| "py_truthy (PyBool b) = b"
| "py_truthy (PyInt i) = (i \<noteq> 0)"
| "py_truthy (PyFloat r) = (r \<noteq> 0)"
| "py_truthy (PyStr s) = (s \<noteq> [])"
| "py_truthy (PyList xs) = (xs \<noteq> [])"
| "py_truthy (PyDict kvs) = (kvs \<noteq> [])"

text \<open>\<^verbatim>\<open>v.get(k, d)\<close>: only a dict has the method.\<close>

fun py_get :: "pyval \<Rightarrow> string \<Rightarrow> pyval \<Rightarrow> pyval outcome" where
  "py_get (PyDict kvs) k d = Return (case map_of kvs k of Some x \<Rightarrow> x | None \<Rightarrow> d)"
| "py_get v k d = Raise AttributeError"

text \<open>\<^verbatim>\<open>v[k]\<close> for a string \<open>k\<close>.\<close>

fun py_getitem :: "pyval \<Rightarrow> string \<Rightarrow> pyval outcome" where
  "py_getitem (PyDict kvs) k = (case map_of kvs k of Some x \<Rightarrow> Return x | None \<Rightarrow> Raise KeyError)"
| "py_getitem v k = Raise TypeError"

text \<open>\<^verbatim>\<open>v[0]\<close>. The keys of a decoded JSON object are strings, so \<open>0\<close> is never one.\<close>

fun py_getitem0 :: "pyval \<Rightarrow> pyval outcome" where
  "py_getitem0 (PyList []) = Raise IndexError"
| "py_getitem0 (PyList (x # xs)) = Return x"
| "py_getitem0 (PyStr []) = Raise IndexError"
| "py_getitem0 (PyStr (c # cs)) = Return (PyStr [c])"
| "py_getitem0 (PyDict kvs) = Raise KeyError"
| "py_getitem0 v = Raise TypeError"

text \<open>\<^verbatim>\<open>len(v)\<close>.\<close>

fun py_len :: "pyval \<Rightarrow> nat outcome" where
  "py_len (PyStr s) = Return (length s)"
| "py_len (PyList xs) = Return (length xs)"
| "py_len (PyDict kvs) = Return (length (remdups (map fst kvs)))"
| "py_len v = Raise TypeError"

text \<open>
  \<^verbatim>\<open>k in v\<close> for a string \<open>k\<close>: a key of a dict, an element of a list, a substring of a
  str; the other values are not iterable.
\<close>

fun py_in :: "string \<Rightarrow> pyval \<Rightarrow> bool outcome" where
  "py_in k (PyDict kvs) = Return (k \<in> set (map fst kvs))"
| "py_in k (PyList xs) = Return (PyStr k \<in> set xs)"
| "py_in k (PyStr s) = Return (sublist k s)"
| "py_in k v = Raise TypeError"

text \<open>\<^verbatim>\<open>all(key in v for key in keys)\<close>: stops at the first key that is missing.\<close>

fun py_all_in :: "string list \<Rightarrow> pyval \<Rightarrow> bool outcome" where
  "py_all_in [] v = Return True"
| "py_all_in (k # ks) v = py_and (py_in k v) (py_all_in ks v)"

fun is_list :: "pyval \<Rightarrow> bool" where
  "is_list (PyList xs) = True"
| "is_list v = False"

text \<open>\<^verbatim>\<open>s.split(" ")\<close> and \<^verbatim>\<open>" ".join(ws)\<close>.\<close>

fun split_sp :: "string \<Rightarrow> string list" where
  "split_sp [] = [[]]"
| "split_sp (c # cs) =
     (if c = CHR '' '' then [] # split_sp cs
      else (case split_sp cs of [] \<Rightarrow> [[c]] | w # ws \<Rightarrow> (c # w) # ws))"

fun join_sp :: "string list \<Rightarrow> string" where
  "join_sp [] = []"
| "join_sp [w] = w"
| "join_sp (w # ws) = w @ '' '' @ join_sp ws"

text \<open>\<^verbatim>\<open>" ".join(address_fragment.split(" ")[:-1])\<close>, the fragment of the retry.\<close>

definition drop_last_piece :: "string \<Rightarrow> string" where
  "drop_last_piece address_fragment = join_sp (butlast (split_sp address_fragment))"

text \<open>
  An f-string field \<^verbatim>\<open>{v}\<close> inside the answer: a str is inserted as it is, any other
  value through Python's built-in \<^verbatim>\<open>str()\<close>, which is not code of this repository and
  is the parameter \<open>to_str\<close>.
\<close>

fun fstr :: "(pyval \<Rightarrow> string) \<Rightarrow> pyval \<Rightarrow> string" where
  "fstr to_str (PyStr s) = s"
| "fstr to_str v = to_str v"

section \<open>The network and the log\<close>

text \<open>
  A log message keeps the pieces of its f-string: literal text, the value of a field, or
  the exception of a field. A run leaves a trace of events: the requests it sent and the
  messages it logged, in order.
\<close>

datatype level = INFO | WARNING | ERROR

datatype piece = Text string | Val pyval | Exc pyexc

datatype event =
    Request string "(string \<times> pyval) list"
  | Log level "piece list"

record run_state =
  requests_sent :: nat
  events :: "event list"

text \<open>
  What a GET brings back, after \<^verbatim>\<open>raise_for_status()\<close> and \<^verbatim>\<open>json()\<close>: an exception or
  the decoded body. The services are not assumed to answer the same request the same way
  twice: the answer depends on the number of requests the run has sent before, on the URL
  and on the query parameters.
\<close>

datatype response = Raises pyexc | Body pyval

type_synonym net = "nat \<Rightarrow> string \<Rightarrow> (string \<times> pyval) list \<Rightarrow> response"

definition http_get :: "net \<Rightarrow> string \<Rightarrow> (string \<times> pyval) list \<Rightarrow> run_state \<Rightarrow> response \<times> run_state" where
  "http_get net u ps s =
     (net (requests_sent s) u ps,
      s\<lparr>requests_sent := Suc (requests_sent s), events := events s @ [Request u ps]\<rparr>)"

definition logger :: "level \<Rightarrow> piece list \<Rightarrow> run_state \<Rightarrow> run_state" where
  "logger lv msg s = s\<lparr>events := events s @ [Log lv msg]\<rparr>"

definition SEARCH_GIS_ADDRESS_URL :: string where
  "SEARCH_GIS_ADDRESS_URL = ''https://www.indy.gov/api/v1/search_gis_address''"

definition PARCEL_URL :: string where
  "PARCEL_URL = ''https://www.indy.gov/api/v1/parcel''"

definition TRASH_PICKUP_URL :: string where
  "TRASH_PICKUP_URL = ''https://www.indy.gov/api/v1/indy_trash_pickup''"

definition WORKFLOW_ID :: string where
  "WORKFLOW_ID = ''c2fdbada-0999-4a55-ad3e-8552b717c1da''"

section \<open>Stage 1: search_address\<close>

text \<open>
  \<^verbatim>\<open>data.get("addresses") and len(data["addresses"]) == 1\<close>, and the same with
  \<^verbatim>\<open>> 1\<close>: the comparison is the parameter \<open>cmp\<close>.
\<close>

definition addresses_len :: "pyval \<Rightarrow> (nat \<Rightarrow> bool) \<Rightarrow> bool outcome" where
  "addresses_len data cmp =
     py_and (bind_outcome (py_get data ''addresses'' PyNone) (\<lambda>a. Return (py_truthy a)))
            (bind_outcome (py_getitem data ''addresses'') (\<lambda>v.
               bind_outcome (py_len v) (\<lambda>n. Return (cmp n))))"

text \<open>\<^verbatim>\<open>data["addresses"][0]\<close>\<close>

definition first_address :: "pyval \<Rightarrow> pyval outcome" where
  "first_address data = bind_outcome (py_getitem data ''addresses'') py_getitem0"

text \<open>
  The body of the \<^verbatim>\<open>try\<close> of \<^verbatim>\<open>search_address\<close>, the same in both files: the request,
  then the reading of the candidate list.
\<close>

definition search_address_try :: "net \<Rightarrow> string \<Rightarrow> run_state \<Rightarrow> pyval outcome \<times> run_state" where
  "search_address_try net address_fragment s =
     (case http_get net SEARCH_GIS_ADDRESS_URL [(''address_fragment'', PyStr address_fragment)] s of
        (Raises e, s1) \<Rightarrow> (Raise e, s1)
      | (Body data, s1) \<Rightarrow>
          (case addresses_len data (\<lambda>n. n = 1) of
             Raise e \<Rightarrow> (Raise e, s1)
           | Return True \<Rightarrow> (first_address data, s1)
           | Return False \<Rightarrow>
               (case addresses_len data (\<lambda>n. n > 1) of
                  Raise e \<Rightarrow> (Raise e, s1)
                | Return True \<Rightarrow>
                    (let s2 = logger WARNING [Text (''Ambiguous address found for: '' @ address_fragment)] s1
                     in (first_address data, s2))
                | Return False \<Rightarrow>
                    (Return PyNone,
                     logger ERROR [Text (''No address found for: '' @ address_fragment)] s1))))"

text \<open>
  \<^verbatim>\<open>search_address\<close> of \<^verbatim>\<open>server.py\<close>. On status 422 it calls itself on the fragment
  without its last piece, and the source puts no bound of its own on these calls. The
  interpreter does: calls nest only so deep. \<open>depth\<close> is the number of nested calls of
  \<^verbatim>\<open>search_address\<close> that the interpreter still lets through to their request. In the
  call beyond it the \<^verbatim>\<open>try\<close> block ends with a \<^verbatim>\<open>RecursionError\<close> before any request
  is sent; the last handler, \<^verbatim>\<open>except Exception\<close>, catches it like any other exception,
  logs it and returns \<^verbatim>\<open>None\<close>, and every enclosing call returns that \<^verbatim>\<open>None\<close>.
\<close>

fun search_address :: "nat \<Rightarrow> net \<Rightarrow> string \<Rightarrow> run_state \<Rightarrow> pyval outcome \<times> run_state" where
  "search_address 0 net address_fragment s =
     (Return PyNone,
      logger ERROR [Text ''Unexpected error in search_address: '', Exc RecursionError] s)"
| "search_address (Suc depth) net address_fragment s =
     (case search_address_try net address_fragment s of
        (Return v, s1) \<Rightarrow> (Return v, s1)
      | (Raise e, s1) \<Rightarrow>
          (case e of
             HTTPStatusError code \<Rightarrow>
               (if code = 422 then
                  search_address depth net (drop_last_piece address_fragment)
                    (logger WARNING [Text ''retrying without the street type''] s1)
                else (Return PyNone,
                      logger ERROR [Text ''HTTP error calling search_gis_address API: '', Exc e] s1))
           | RequestError \<Rightarrow>
               (Return PyNone,
                logger ERROR [Text ''Error calling search_gis_address API: '', Exc e] s1)
           | _ \<Rightarrow>
               (Return PyNone,
                logger ERROR [Text ''Unexpected error in search_address: '', Exc e] s1)))"

text \<open>
  \<^verbatim>\<open>search_address\<close> of \<^verbatim>\<open>indy_trash_server.py\<close>: no retry; a status error is a
  \<^verbatim>\<open>RequestException\<close> like a transport fault.
\<close>

definition its_search_address :: "net \<Rightarrow> string \<Rightarrow> run_state \<Rightarrow> pyval outcome \<times> run_state" where
  "its_search_address net address_fragment s =
     (case search_address_try net address_fragment s of
        (Return v, s1) \<Rightarrow> (Return v, s1)
      | (Raise e, s1) \<Rightarrow>
          (case e of
             HTTPStatusError code \<Rightarrow>
               (Return PyNone, logger ERROR [Text ''Error calling search_gis_address API: '', Exc e] s1)
           | RequestError \<Rightarrow>
               (Return PyNone, logger ERROR [Text ''Error calling search_gis_address API: '', Exc e] s1)
           | _ \<Rightarrow>
               (Return PyNone, logger ERROR [Text ''Unexpected error in search_address: '', Exc e] s1)))"

section \<open>Stage 2: get_parcel_info\<close>

definition required_keys :: "string list" where
  "required_keys = [''address1'', ''city'', ''level'', ''number'', ''state'', ''tag'', ''zipcode'']"

text \<open>
  The dict literal \<^verbatim>\<open>params\<close>: seven subscripts of \<^verbatim>\<open>address_details\<close>, evaluated in
  the order written; the value under \<^verbatim>\<open>"tag"\<close> is stored under \<^verbatim>\<open>"tag_id"\<close>.
\<close>

definition parcel_params :: "pyval \<Rightarrow> (string \<times> pyval) list outcome" where
  "parcel_params address_details =
     bind_outcome (py_getitem address_details ''address1'') (\<lambda>a.
     bind_outcome (py_getitem address_details ''city'') (\<lambda>c.
     bind_outcome (py_getitem address_details ''level'') (\<lambda>l.
     bind_outcome (py_getitem address_details ''number'') (\<lambda>n.
     bind_outcome (py_getitem address_details ''state'') (\<lambda>st.
     bind_outcome (py_getitem address_details ''tag'') (\<lambda>t.
     bind_outcome (py_getitem address_details ''zipcode'') (\<lambda>z.
       Return [(''address1'', a), (''city'', c), (''level'', l), (''number'', n),
               (''state'', st), (''tag_id'', t), (''zipcode'', z)])))))))"

text \<open>The body of the \<^verbatim>\<open>try\<close> of \<^verbatim>\<open>get_parcel_info\<close>, the same in both files.\<close>

definition get_parcel_info_try ::
  "net \<Rightarrow> (string \<times> pyval) list \<Rightarrow> run_state \<Rightarrow> pyval outcome \<times> run_state" where
  "get_parcel_info_try net params s =
     (case http_get net PARCEL_URL params s of
        (Raises e, s1) \<Rightarrow> (Raise e, s1)
      | (Body data, s1) \<Rightarrow>
          (case py_and (Return (py_truthy data \<and> is_list data))
                       (bind_outcome (py_len data) (\<lambda>n. Return (n > 0))) of
             Raise e \<Rightarrow> (Raise e, s1)
           | Return True \<Rightarrow>
               (case py_getitem0 data of
                  Raise e \<Rightarrow> (Raise e, s1)
                | Return parcel_data \<Rightarrow>
                    (case py_and (py_in ''x'' parcel_data) (py_in ''y'' parcel_data) of
                       Raise e \<Rightarrow> (Raise e, s1)
                     | Return True \<Rightarrow> (Return parcel_data, s1)
                     | Return False \<Rightarrow>
                         (Return PyNone,
                          logger ERROR [Text ''Parcel data missing x/y coordinates: '', Val parcel_data] s1)))
           | Return False \<Rightarrow>
               (Return PyNone,
                logger ERROR [Text ''No parcel data found for details: '', Val (PyDict params)] s1)))"

text \<open>
  The check of the required keys and the construction of \<^verbatim>\<open>params\<close> stand before the
  \<^verbatim>\<open>try\<close>: an exception there leaves the function. Inside the \<^verbatim>\<open>try\<close> every exception
  is caught. In \<^verbatim>\<open>server.py\<close> a status error is not an \<^verbatim>\<open>httpx.RequestError\<close> and
  falls to the last handler.
\<close>

definition get_parcel_info :: "net \<Rightarrow> pyval \<Rightarrow> run_state \<Rightarrow> pyval outcome \<times> run_state" where
  "get_parcel_info net address_details s =
     (case py_all_in required_keys address_details of
        Raise e \<Rightarrow> (Raise e, s)
      | Return False \<Rightarrow>
          (Return PyNone,
           logger ERROR [Text ''Missing required keys in address_details for parcel API call: '',
                      Val address_details] s)
      | Return True \<Rightarrow>
          (case parcel_params address_details of
             Raise e \<Rightarrow> (Raise e, s)
           | Return params \<Rightarrow>
               (case get_parcel_info_try net params s of
                  (Return v, s1) \<Rightarrow> (Return v, s1)
                | (Raise e, s1) \<Rightarrow>
                    (case e of
                       RequestError \<Rightarrow>
                         (Return PyNone, logger ERROR [Text ''Error calling parcel API: '', Exc e] s1)
                     | _ \<Rightarrow>
                         (Return PyNone,
                          logger ERROR [Text ''Unexpected error in get_parcel_info: '', Exc e] s1)))))"

definition its_get_parcel_info :: "net \<Rightarrow> pyval \<Rightarrow> run_state \<Rightarrow> pyval outcome \<times> run_state" where
  "its_get_parcel_info net address_details s =
     (case py_all_in required_keys address_details of
        Raise e \<Rightarrow> (Raise e, s)
      | Return False \<Rightarrow>
          (Return PyNone,
           logger ERROR [Text ''Missing required keys in address_details for parcel API call: '',
                      Val address_details] s)
      | Return True \<Rightarrow>
          (case parcel_params address_details of
             Raise e \<Rightarrow> (Raise e, s)
           | Return params \<Rightarrow>
               (case get_parcel_info_try net params s of
                  (Return v, s1) \<Rightarrow> (Return v, s1)
                | (Raise e, s1) \<Rightarrow>
                    (case e of
                       HTTPStatusError code \<Rightarrow>
                         (Return PyNone, logger ERROR [Text ''Error calling parcel API: '', Exc e] s1)
                     | RequestError \<Rightarrow>
                         (Return PyNone, logger ERROR [Text ''Error calling parcel API: '', Exc e] s1)
                     | _ \<Rightarrow>
                         (Return PyNone,
                          logger ERROR [Text ''Unexpected error in get_parcel_info: '', Exc e] s1)))))"

section \<open>Stage 3: get_trash_pickup_details\<close>

text \<open>\<^verbatim>\<open>"x" not in parcel_info or "y" not in parcel_info\<close>\<close>

definition missing_x_or_y :: "pyval \<Rightarrow> bool outcome" where
  "missing_x_or_y parcel_info =
     bind_outcome (py_in ''x'' parcel_info) (\<lambda>hx.
       if \<not> hx then Return True
       else bind_outcome (py_in ''y'' parcel_info) (\<lambda>hy. Return (\<not> hy)))"

text \<open>The dict literal \<^verbatim>\<open>params\<close> of \<^verbatim>\<open>server.py\<close>, and that of \<^verbatim>\<open>indy_trash_server.py\<close>.\<close>

definition trash_params :: "pyval \<Rightarrow> (string \<times> pyval) list outcome" where
  "trash_params parcel_info =
     bind_outcome (py_getitem parcel_info ''x'') (\<lambda>x.
     bind_outcome (py_getitem parcel_info ''y'') (\<lambda>y.
       Return [(''x'', x), (''y'', y)]))"

definition its_trash_params :: "pyval \<Rightarrow> (string \<times> pyval) list outcome" where
  "its_trash_params parcel_info =
     bind_outcome (py_getitem parcel_info ''x'') (\<lambda>x.
     bind_outcome (py_getitem parcel_info ''y'') (\<lambda>y.
       Return [(''__workflow_id'', PyStr WORKFLOW_ID), (''x'', x), (''y'', y)]))"

text \<open>The body of the \<^verbatim>\<open>try\<close> of \<^verbatim>\<open>get_trash_pickup_details\<close>, the same in both files.\<close>

definition get_trash_pickup_details_try ::
  "net \<Rightarrow> (string \<times> pyval) list \<Rightarrow> run_state \<Rightarrow> pyval outcome \<times> run_state" where
  "get_trash_pickup_details_try net params s =
     (case http_get net TRASH_PICKUP_URL params s of
        (Raises e, s1) \<Rightarrow> (Raise e, s1)
      | (Body data, s1) \<Rightarrow>
          (case py_and (Return (py_truthy data)) (py_in ''pickup_day'' data) of
             Raise e \<Rightarrow> (Raise e, s1)
           | Return True \<Rightarrow> (Return data, s1)
           | Return False \<Rightarrow>
               (Return PyNone,
                logger ERROR [Text (''Trash pickup data missing '' @ [CHR 0x27] @ ''pickup_day''
                                 @ [CHR 0x27] @ '': ''), Val data] s1)))"

definition get_trash_pickup_details :: "net \<Rightarrow> pyval \<Rightarrow> run_state \<Rightarrow> pyval outcome \<times> run_state" where
  "get_trash_pickup_details net parcel_info s =
     (case missing_x_or_y parcel_info of
        Raise e \<Rightarrow> (Raise e, s)
      | Return True \<Rightarrow>
          (Return PyNone,
           logger ERROR [Text ''Missing x or y coordinates in parcel_info: '', Val parcel_info] s)
      | Return False \<Rightarrow>
          (case trash_params parcel_info of
             Raise e \<Rightarrow> (Raise e, s)
           | Return params \<Rightarrow>
               (case get_trash_pickup_details_try net params s of
                  (Return v, s1) \<Rightarrow> (Return v, s1)
                | (Raise e, s1) \<Rightarrow>
                    (case e of
                       RequestError \<Rightarrow>
                         (Return PyNone, logger ERROR [Text ''Error calling trash pickup API: '', Exc e] s1)
                     | _ \<Rightarrow>
                         (Return PyNone,
                          logger ERROR [Text ''Unexpected error in get_trash_pickup_details: '', Exc e] s1)))))"

definition its_get_trash_pickup_details ::
  "net \<Rightarrow> pyval \<Rightarrow> run_state \<Rightarrow> pyval outcome \<times> run_state" where
  "its_get_trash_pickup_details net parcel_info s =
     (case missing_x_or_y parcel_info of
        Raise e \<Rightarrow> (Raise e, s)
      | Return True \<Rightarrow>
          (Return PyNone,
           logger ERROR [Text ''Missing x or y coordinates in parcel_info: '', Val parcel_info] s)
      | Return False \<Rightarrow>
          (case its_trash_params parcel_info of
             Raise e \<Rightarrow> (Raise e, s)
           | Return params \<Rightarrow>
               (case get_trash_pickup_details_try net params s of
                  (Return v, s1) \<Rightarrow> (Return v, s1)
                | (Raise e, s1) \<Rightarrow>
                    (case e of
                       HTTPStatusError code \<Rightarrow>
                         (Return PyNone, logger ERROR [Text ''Error calling trash pickup API: '', Exc e] s1)
                     | RequestError \<Rightarrow>
                         (Return PyNone, logger ERROR [Text ''Error calling trash pickup API: '', Exc e] s1)
                     | _ \<Rightarrow>
                         (Return PyNone,
                          logger ERROR [Text ''Unexpected error in get_trash_pickup_details: '', Exc e] s1)))))"

section \<open>The orchestrator: get_indy_trash_day\<close>

definition address_failure :: string where
  "address_failure =
     ''Sorry, I couldn'' @ [CHR 0x27] @ ''t validate that address. Please provide a valid Indianapolis address.''"

definition parcel_failure :: string where
  "parcel_failure =
     ''Sorry, I couldn'' @ [CHR 0x27] @ ''t retrieve parcel information for that address.''"

definition trash_failure :: string where
  "trash_failure =
     ''Sorry, I couldn'' @ [CHR 0x27] @ ''t retrieve trash pickup details for that address.''"

text \<open>
  Step 4 of the orchestrator, the same in both files: the two \<^verbatim>\<open>.get\<close> calls, the answer
  and the last log line. None of it is inside a \<^verbatim>\<open>try\<close>.
\<close>

definition format_result ::
  "(pyval \<Rightarrow> string) \<Rightarrow> string \<Rightarrow> pyval \<Rightarrow> run_state \<Rightarrow> string outcome \<times> run_state" where
  "format_result to_str address trash_details s =
     (case py_get trash_details ''pickup_day'' (PyStr ''Not specified'') of
        Raise e \<Rightarrow> (Raise e, s)
      | Return pickup_day \<Rightarrow>
          (case py_get trash_details ''heavy_trash_pickup'' (PyStr []) of
             Raise e \<Rightarrow> (Raise e, s)
           | Return heavy_trash \<Rightarrow>
               (let response = ''Your regular trash pickup day is '' @ fstr to_str pickup_day @ ''.'';
                    response = (if py_truthy heavy_trash
                                then response @ '' Heavy trash pickup: '' @ fstr to_str heavy_trash @ ''.''
                                else response)
                in (Return response,
                    logger INFO [Text (''Returning trash info for '' @ address @ '': '' @ response)] s))))"

text \<open>
  \<^verbatim>\<open>get_indy_trash_day\<close> of \<^verbatim>\<open>server.py\<close>; \<open>depth\<close> is the depth that the interpreter
  allows to \<^verbatim>\<open>search_address\<close>. An exception of a stage is not caught here.
\<close>

definition get_indy_trash_day ::
  "nat \<Rightarrow> (pyval \<Rightarrow> string) \<Rightarrow> net \<Rightarrow> string \<Rightarrow> run_state \<Rightarrow> string outcome \<times> run_state" where
  "get_indy_trash_day depth to_str net address s =
     (case search_address depth net address
             (logger INFO [Text (''Received request for address: '' @ address)] s) of
        (Raise e, s1) \<Rightarrow> (Raise e, s1)
      | (Return address_details, s1) \<Rightarrow>
          (if \<not> py_truthy address_details then (Return address_failure, s1)
           else
             (case get_parcel_info net address_details s1 of
                (Raise e, s2) \<Rightarrow> (Raise e, s2)
              | (Return parcel_info, s2) \<Rightarrow>
                  (if \<not> py_truthy parcel_info then (Return parcel_failure, s2)
                   else
                     (case get_trash_pickup_details net parcel_info s2 of
                        (Raise e, s3) \<Rightarrow> (Raise e, s3)
                      | (Return trash_details, s3) \<Rightarrow>
                          (if \<not> py_truthy trash_details then (Return trash_failure, s3)
                           else format_result to_str address trash_details s3))))))"

text \<open>\<^verbatim>\<open>get_indy_trash_day\<close> of \<^verbatim>\<open>indy_trash_server.py\<close>, whose Stage 1 never calls itself.\<close>

definition its_get_indy_trash_day ::
  "(pyval \<Rightarrow> string) \<Rightarrow> net \<Rightarrow> string \<Rightarrow> run_state \<Rightarrow> string outcome \<times> run_state" where
  "its_get_indy_trash_day to_str net address s =
     (case its_search_address net address (logger INFO [Text (''Received request for address: '' @ address)] s) of
        (Raise e, s1) \<Rightarrow> (Raise e, s1)
      | (Return address_details, s1) \<Rightarrow>
          (if \<not> py_truthy address_details then (Return address_failure, s1)
           else
             (case its_get_parcel_info net address_details s1 of
                (Raise e, s2) \<Rightarrow> (Raise e, s2)
              | (Return parcel_info, s2) \<Rightarrow>
                  (if \<not> py_truthy parcel_info then (Return parcel_failure, s2)
                   else
                     (case its_get_trash_pickup_details net parcel_info s2 of
                        (Raise e, s3) \<Rightarrow> (Raise e, s3)
                      | (Return trash_details, s3) \<Rightarrow>
                          (if \<not> py_truthy trash_details then (Return trash_failure, s3)
                           else format_result to_str address trash_details s3))))))"

section \<open>Vocabulary of the properties\<close>

text \<open>
  The requests that a trace holds, in order, each with its URL and its query parameters;
  and the query parameters of those sent to one URL.
\<close>

fun requests :: "event list \<Rightarrow> (string \<times> (string \<times> pyval) list) list" where
  "requests [] = []"
| "requests (Request u ps # es) = (u, ps) # requests es"
| "requests (Log lv msg # es) = requests es"

definition requests_to :: "string \<Rightarrow> event list \<Rightarrow> (string \<times> pyval) list list" where
  "requests_to u es = map snd (filter (\<lambda>r. fst r = u) (requests es))"

text \<open>The request of Stage 1 for a fragment.\<close>

definition fragment_params :: "string \<Rightarrow> (string \<times> pyval) list" where
  "fragment_params address_fragment = [(''address_fragment'', PyStr address_fragment)]"

text \<open>
  The state after \<open>k\<close> retries of Stage 1 in \<^verbatim>\<open>server.py\<close>: each one has sent a request
  for the current fragment, logged the warning and dropped the last piece.
\<close>

fun retry_state :: "nat \<Rightarrow> string \<Rightarrow> run_state \<Rightarrow> run_state" where
  "retry_state 0 address_fragment s = s"
| "retry_state (Suc k) address_fragment s =
     retry_state k (drop_last_piece address_fragment)
       (logger WARNING [Text ''retrying without the street type'']
          (s\<lparr>requests_sent := Suc (requests_sent s),
             events := events s @ [Request SEARCH_GIS_ADDRESS_URL (fragment_params address_fragment)]\<rparr>))"

text \<open>
  The geocoding service answers the first \<open>k\<close> requests of Stage 1 with status 422 and
  the next one with the body \<open>data\<close>.
\<close>

definition answers_after :: "net \<Rightarrow> nat \<Rightarrow> string \<Rightarrow> run_state \<Rightarrow> pyval \<Rightarrow> bool" where
  "answers_after net k address_fragment s data =
     ((\<forall>i < k. net (requests_sent s + i) SEARCH_GIS_ADDRESS_URL
                 (fragment_params ((drop_last_piece ^^ i) address_fragment))
               = Raises (HTTPStatusError 422))
      \<and> net (requests_sent s + k) SEARCH_GIS_ADDRESS_URL
           (fragment_params ((drop_last_piece ^^ k) address_fragment))
         = Body data)"

text \<open>
  The keys that Stage 2 requires and a dict lacks; the strings that occur in a value (str
  values and dict keys, at any depth) and in a piece of a message; a message names a key
  when the key is part of one of its strings. A log tells which keys were missing when
  each of them is named by one of its messages.
\<close>

definition missing_keys :: "(string \<times> pyval) list \<Rightarrow> string list" where
  "missing_keys kvs = filter (\<lambda>k. k \<notin> set (map fst kvs)) required_keys"

fun strings_of :: "pyval \<Rightarrow> string list" where
  "strings_of (PyStr s) = [s]"
| "strings_of (PyList xs) = concat (map strings_of xs)"
| "strings_of (PyDict kvs) = concat (map (\<lambda>kv. fst kv # strings_of (snd kv)) kvs)"
| "strings_of v = []"

fun piece_strings :: "piece \<Rightarrow> string list" where
  "piece_strings (Text t) = [t]"
| "piece_strings (Val v) = strings_of v"
| "piece_strings (Exc e) = []"

fun names_key :: "string \<Rightarrow> event \<Rightarrow> bool" where
  "names_key k (Log lv msg) = list_ex (sublist k) (concat (map piece_strings msg))"
| "names_key k (Request u ps) = False"

definition tells_missing_keys :: "(string \<times> pyval) list \<Rightarrow> event list \<Rightarrow> bool" where
  "tells_missing_keys kvs evs = list_all (\<lambda>k. list_ex (names_key k) evs) (missing_keys kvs)"

text \<open>
  The answer as the specification words it: the sentence with the pickup day, and after
  it the heavy-trash clause only if the heavy-trash field is there and not empty.
\<close>

definition expected_answer :: "(pyval \<Rightarrow> string) \<Rightarrow> pyval \<Rightarrow> pyval option \<Rightarrow> string" where
  "expected_answer to_str day heavy =
     ''Your regular trash pickup day is '' @ fstr to_str day @ ''.'' @
     (case heavy of
        None \<Rightarrow> []
      | Some h \<Rightarrow> if py_truthy h then '' Heavy trash pickup: '' @ fstr to_str h @ ''.'' else [])"

subsection \<open>Example inputs\<close>

definition start :: run_state where
  "start = \<lparr>requests_sent = 0, events = []\<rparr>"

definition example_candidate :: "(string \<times> pyval) list" where
  "example_candidate =
     [(''address1'', PyStr ''1234 MAIN ST''), (''city'', PyStr ''INDIANAPOLIS''), (''level'', PyStr []),
      (''number'', PyStr ''1234''), (''state'', PyStr ''IN''), (''tag'', PyInt 7),
      (''zipcode'', PyStr ''46204'')]"

definition example_parcel :: "(string \<times> pyval) list" where
  "example_parcel = [(''x'', PyFloat 10), (''y'', PyFloat 20)]"

text \<open>
  Three services that answer by URL alone: the geocoder with the body \<open>geo\<close>, the parcel
  service with a list holding the example parcel, the schedule service with the body
  \<open>sched\<close>.
\<close>

definition example_net :: "pyval \<Rightarrow> pyval \<Rightarrow> net" where
  "example_net geo sched n u ps =
     (if u = SEARCH_GIS_ADDRESS_URL then Body geo
      else if u = PARCEL_URL then Body (PyList [PyDict example_parcel])
      else Body sched)"

definition one_candidate :: pyval where
  "one_candidate = PyDict [(''addresses'', PyList [PyDict example_candidate])]"

definition two_candidates :: pyval where
  "two_candidates =
     PyDict [(''addresses'', PyList [PyDict example_candidate, PyDict [(''address1'', PyStr ''1234 MAIN AVE'')]])]"

definition schedule_with_heavy :: pyval where
  "schedule_with_heavy =
     PyDict [(''pickup_day'', PyStr ''Tuesday''), (''heavy_trash_pickup'', PyStr ''3rd Wednesday'')]"

definition schedule_without_heavy :: pyval where
  "schedule_without_heavy =
     PyDict [(''pickup_day'', PyStr ''Tuesday''), (''heavy_trash_pickup'', PyStr [])]"

definition no_candidates :: pyval where
  "no_candidates = PyDict [(''addresses'', PyList [])]"

text \<open>
  A stand-in for \<^verbatim>\<open>str()\<close> in the examples, whose answers hold fields that are strings
  already.
\<close>

definition example_to_str :: "pyval \<Rightarrow> string" where
  "example_to_str v = []"

text \<open>A geocoder that answers every request with status 422.\<close>

definition net_422 :: net where
  "net_422 n u ps = Raises (HTTPStatusError 422)"

text \<open>
  The example depth, below the thousand frames that the interpreter allows by default.
  The examples need four nested calls at most.
\<close>

definition example_depth :: nat where
  "example_depth = 900"

text \<open>The first \<open>m\<close> requests of the run get status 422; after them the services are \<open>example_net\<close>.\<close>

definition net_422_times :: "nat \<Rightarrow> pyval \<Rightarrow> pyval \<Rightarrow> net" where
  "net_422_times m geo sched n u ps =
     (if n < m then Raises (HTTPStatusError 422) else example_net geo sched n u ps)"

text \<open>The first request of the run gets status 422; after it the services are \<open>example_net\<close>.\<close>

definition net_422_once :: "pyval \<Rightarrow> pyval \<Rightarrow> net" where
  "net_422_once geo sched n u ps =
     (if n = 0 then Raises (HTTPStatusError 422) else example_net geo sched n u ps)"

section \<open>Stage 1: what the try block and the handlers do\<close>

lemma py_all_in_dict:
  "py_all_in ks (PyDict kvs) = Return (set ks \<subseteq> set (map fst kvs))"
  by (induction ks) (auto simp: py_and_def bind_outcome_def)

lemma search_address_try_raises:
  assumes "net (requests_sent s) SEARCH_GIS_ADDRESS_URL (fragment_params frag) = Raises e"
  shows "search_address_try net frag s =
           (Raise e, s\<lparr>requests_sent := Suc (requests_sent s),
                        events := events s @ [Request SEARCH_GIS_ADDRESS_URL (fragment_params frag)]\<rparr>)"
  using assms by (simp add: search_address_try_def http_get_def fragment_params_def)

lemma addresses_len_list:
  assumes "map_of kvs ''addresses'' = Some (PyList cs)"
  shows "addresses_len (PyDict kvs) cmp = Return (cs \<noteq> [] \<and> cmp (length cs))"
  using assms by (simp add: addresses_len_def py_and_def bind_outcome_def)

lemma first_address_list:
  assumes "map_of kvs ''addresses'' = Some (PyList cs)" and "cs \<noteq> []"
  shows "first_address (PyDict kvs) = Return (cs ! 0)"
  using assms by (cases cs) (simp_all add: first_address_def bind_outcome_def)

lemma search_address_try_many:
  assumes "net (requests_sent s) SEARCH_GIS_ADDRESS_URL (fragment_params frag) = Body (PyDict kvs)"
    and "map_of kvs ''addresses'' = Some (PyList cs)" and "length cs > 1"
  shows "search_address_try net frag s =
           (Return (cs ! 0),
            s\<lparr>requests_sent := Suc (requests_sent s),
              events := events s @ [Request SEARCH_GIS_ADDRESS_URL (fragment_params frag),
                                    Log WARNING [Text (''Ambiguous address found for: '' @ frag)]]\<rparr>)"
proof -
  have ne: "cs \<noteq> []" using assms(3) by auto
  show ?thesis
    using assms ne
    by (simp add: search_address_try_def http_get_def fragment_params_def addresses_len_list
        first_address_list logger_def)
qed

lemma search_address_try_one:
  assumes "net (requests_sent s) SEARCH_GIS_ADDRESS_URL (fragment_params frag) = Body (PyDict kvs)"
    and "map_of kvs ''addresses'' = Some (PyList [c])"
  shows "search_address_try net frag s =
           (Return c,
            s\<lparr>requests_sent := Suc (requests_sent s),
              events := events s @ [Request SEARCH_GIS_ADDRESS_URL (fragment_params frag)]\<rparr>)"
  using assms
  by (simp add: search_address_try_def http_get_def fragment_params_def addresses_len_list
      first_address_list)

lemma search_address_try_none:
  assumes "net (requests_sent s) SEARCH_GIS_ADDRESS_URL (fragment_params frag) = Body (PyDict kvs)"
    and "map_of kvs ''addresses'' = Some (PyList [])"
  shows "search_address_try net frag s =
           (Return PyNone,
            s\<lparr>requests_sent := Suc (requests_sent s),
              events := events s @ [Request SEARCH_GIS_ADDRESS_URL (fragment_params frag),
                                    Log ERROR [Text (''No address found for: '' @ frag)]]\<rparr>)"
  using assms
  by (simp add: search_address_try_def http_get_def fragment_params_def addresses_len_list logger_def)

lemma search_address_returns:
  assumes "search_address_try net frag s = (Return v, s1)" and "0 < depth"
  shows "search_address depth net frag s = (Return v, s1)"
  using assms by (cases depth) simp_all

lemma search_address_422:
  assumes "search_address_try net frag s = (Raise (HTTPStatusError 422), s1)" and "0 < depth"
  shows "search_address depth net frag s =
           search_address (depth - 1) net (drop_last_piece frag)
             (logger WARNING [Text ''retrying without the street type''] s1)"
  using assms by (cases depth) simp_all

lemma search_address_retries:
  assumes "\<forall>i < k. net (requests_sent s + i) SEARCH_GIS_ADDRESS_URL
                 (fragment_params ((drop_last_piece ^^ i) frag)) = Raises (HTTPStatusError 422)"
    and "k \<le> depth"
  shows "search_address depth net frag s =
           search_address (depth - k) net ((drop_last_piece ^^ k) frag) (retry_state k frag s)"
  using assms
proof (induction k arbitrary: frag s depth)
  case 0
  then show ?case by simp
next
  case (Suc k)
  let ?s1 = "s\<lparr>requests_sent := Suc (requests_sent s),
               events := events s @ [Request SEARCH_GIS_ADDRESS_URL (fragment_params frag)]\<rparr>"
  let ?s2 = "logger WARNING [Text ''retrying without the street type''] ?s1"
  from Suc.prems(2) have d: "0 < depth" "k \<le> depth - 1" by simp_all
  from Suc.prems(1) have first: "net (requests_sent s) SEARCH_GIS_ADDRESS_URL (fragment_params frag)
      = Raises (HTTPStatusError 422)"
    by (metis add.right_neutral funpow_0 zero_less_Suc)
  have rest: "\<forall>i < k. net (requests_sent ?s2 + i) SEARCH_GIS_ADDRESS_URL
                 (fragment_params ((drop_last_piece ^^ i) (drop_last_piece frag))) = Raises (HTTPStatusError 422)"
  proof (intro allI impI)
    fix i assume "i < k"
    then have "Suc i < Suc k" by simp
    with Suc.prems(1) have "net (requests_sent s + Suc i) SEARCH_GIS_ADDRESS_URL
                 (fragment_params ((drop_last_piece ^^ Suc i) frag)) = Raises (HTTPStatusError 422)"
      by blast
    then show "net (requests_sent ?s2 + i) SEARCH_GIS_ADDRESS_URL
                 (fragment_params ((drop_last_piece ^^ i) (drop_last_piece frag))) = Raises (HTTPStatusError 422)"
      by (simp add: logger_def funpow_swap1)
  qed
  have "search_address depth net frag s = search_address (depth - 1) net (drop_last_piece frag) ?s2"
    using first d(1) by (intro search_address_422 search_address_try_raises)
  also have "\<dots> = search_address (depth - 1 - k) net ((drop_last_piece ^^ k) (drop_last_piece frag))
                     (retry_state k (drop_last_piece frag) ?s2)"
    by (rule Suc.IH [OF rest d(2)])
  finally show ?case by (simp add: funpow_swap1)
qed

lemma requests_append: "requests (es @ fs) = requests es @ requests fs"
  by (induction es rule: requests.induct) auto

lemma requests_to_append:
  "requests_to u (es @ fs) = requests_to u es @ requests_to u fs"
  by (simp add: requests_to_def requests_append)

lemma requests_to_Nil: "requests es = [] \<Longrightarrow> requests_to u es = []"
  by (simp add: requests_to_def)

lemma requests_to_simps:
  "requests_to u [] = []"
  "requests_to u (Request v ps # es) = (if v = u then ps # requests_to u es else requests_to u es)"
  "requests_to u (Log lv msg # es) = requests_to u es"
  by (simp_all add: requests_to_def)

lemma retry_state_sent: "requests_sent (retry_state k frag s) = requests_sent s + k"
  by (induction k arbitrary: frag s) (simp_all add: logger_def)

lemma retry_state_requests:
  "u \<noteq> SEARCH_GIS_ADDRESS_URL \<Longrightarrow> requests_to u (events (retry_state k frag s)) = requests_to u (events s)"
  by (induction k arbitrary: frag s) (simp_all add: logger_def requests_to_append requests_to_simps)

section \<open>Stage 2 and Stage 3: the checks before the request\<close>

lemma get_parcel_info_missing:
  assumes "\<not> set required_keys \<subseteq> set (map fst kvs)"
  shows "get_parcel_info net (PyDict kvs) s =
           (Return PyNone,
            s\<lparr>events := events s @
               [Log ERROR [Text ''Missing required keys in address_details for parcel API call: '',
                           Val (PyDict kvs)]]\<rparr>)"
  using assms by (simp add: get_parcel_info_def py_all_in_dict logger_def)

lemma its_get_parcel_info_missing:
  assumes "\<not> set required_keys \<subseteq> set (map fst kvs)"
  shows "its_get_parcel_info net (PyDict kvs) s =
           (Return PyNone,
            s\<lparr>events := events s @
               [Log ERROR [Text ''Missing required keys in address_details for parcel API call: '',
                           Val (PyDict kvs)]]\<rparr>)"
  using assms by (simp add: its_get_parcel_info_def py_all_in_dict logger_def)

lemma parcel_params_dict:
  assumes "map_of c ''address1'' = Some a" "map_of c ''city'' = Some ci" "map_of c ''level'' = Some le"
    "map_of c ''number'' = Some nu" "map_of c ''state'' = Some st" "map_of c ''tag'' = Some ta"
    "map_of c ''zipcode'' = Some zi"
  shows "parcel_params (PyDict c) =
           Return [(''address1'', a), (''city'', ci), (''level'', le), (''number'', nu),
                   (''state'', st), (''tag_id'', ta), (''zipcode'', zi)]"
  using assms by (simp add: parcel_params_def bind_outcome_def)

lemma map_of_in_keys: "map_of c k = Some v \<Longrightarrow> k \<in> set (map fst c)"
  by (metis domI dom_map_of_conv_image_fst set_map)

lemma get_parcel_info_try_success:
  assumes "get_parcel_info_try net params s = (Return p, s')" and "p \<noteq> PyNone"
  shows "py_in ''x'' p = Return True \<and> py_in ''y'' p = Return True"
  using assms
  by (auto simp: get_parcel_info_try_def http_get_def py_and_def bind_outcome_def
      split: response.splits outcome.splits if_splits bool.splits prod.splits)

lemma get_parcel_info_success:
  assumes "get_parcel_info net a s = (Return p, s')" and "p \<noteq> PyNone"
  shows "py_in ''x'' p = Return True \<and> py_in ''y'' p = Return True"
proof -
  from assms obtain params s1 where "get_parcel_info_try net params s = (Return p, s1)"
    by (auto simp: get_parcel_info_def split: outcome.splits bool.splits prod.splits pyexc.splits)
  then show ?thesis using assms(2) by (rule get_parcel_info_try_success)
qed

lemma its_get_parcel_info_success:
  assumes "its_get_parcel_info net a s = (Return p, s')" and "p \<noteq> PyNone"
  shows "py_in ''x'' p = Return True \<and> py_in ''y'' p = Return True"
proof -
  from assms obtain params s1 where "get_parcel_info_try net params s = (Return p, s1)"
    by (auto simp: its_get_parcel_info_def split: outcome.splits bool.splits prod.splits pyexc.splits)
  then show ?thesis using assms(2) by (rule get_parcel_info_try_success)
qed

lemma missing_x_or_y_False:
  assumes "py_in ''x'' p = Return True" and "py_in ''y'' p = Return True"
  shows "missing_x_or_y p = Return False"
  using assms by (simp add: missing_x_or_y_def bind_outcome_def)

section \<open>The requests of Stage 2 and Stage 3\<close>

lemma urls_differ:
  "PARCEL_URL \<noteq> SEARCH_GIS_ADDRESS_URL" "TRASH_PICKUP_URL \<noteq> SEARCH_GIS_ADDRESS_URL"
  "TRASH_PICKUP_URL \<noteq> PARCEL_URL"
  by (simp_all add: PARCEL_URL_def SEARCH_GIS_ADDRESS_URL_def TRASH_PICKUP_URL_def)

lemma trash_params_Return:
  assumes "trash_params p = Return ps"
  shows "\<exists>kvs vx vy. p = PyDict kvs \<and> map_of kvs ''x'' = Some vx \<and> map_of kvs ''y'' = Some vy
           \<and> ps = [(''x'', vx), (''y'', vy)]"
  using assms
  by (cases p) (auto simp: trash_params_def bind_outcome_def split: option.splits)

lemma its_trash_params_Return:
  assumes "its_trash_params p = Return ps"
  shows "\<exists>kvs vx vy. p = PyDict kvs \<and> map_of kvs ''x'' = Some vx \<and> map_of kvs ''y'' = Some vy
           \<and> ps = [(''__workflow_id'', PyStr WORKFLOW_ID), (''x'', vx), (''y'', vy)]"
  using assms
  by (cases p) (auto simp: its_trash_params_def bind_outcome_def split: option.splits)

lemma get_trash_pickup_details_try_trace:
  "\<exists>evs. events (snd (get_trash_pickup_details_try net params s))
            = events s @ Request TRASH_PICKUP_URL params # evs
         \<and> requests evs = []
         \<and> requests_sent (snd (get_trash_pickup_details_try net params s)) = Suc (requests_sent s)"
  by (auto simp: get_trash_pickup_details_try_def http_get_def logger_def py_and_def bind_outcome_def
      split: response.splits outcome.splits bool.splits prod.splits)

lemma get_parcel_info_try_trace:
  "\<exists>evs. events (snd (get_parcel_info_try net params s))
            = events s @ Request PARCEL_URL params # evs
         \<and> requests evs = []
         \<and> requests_sent (snd (get_parcel_info_try net params s)) = Suc (requests_sent s)"
  by (auto simp: get_parcel_info_try_def http_get_def logger_def
      split: response.splits outcome.splits bool.splits prod.splits)

lemma get_trash_pickup_details_trace:
  "\<exists>evs. events (snd (get_trash_pickup_details net p s)) = events s @ evs
     \<and> (requests evs = []
        \<or> (\<exists>kvs vx vy. p = PyDict kvs \<and> map_of kvs ''x'' = Some vx \<and> map_of kvs ''y'' = Some vy
              \<and> requests evs = [(TRASH_PICKUP_URL, [(''x'', vx), (''y'', vy)])]))"
proof (cases "missing_x_or_y p")
  case (Raise e)
  then show ?thesis by (simp add: get_trash_pickup_details_def)
next
  case (Return b)
  show ?thesis
  proof (cases b)
    case True
    with Return show ?thesis by (simp add: get_trash_pickup_details_def logger_def)
  next
    case False
    show ?thesis
    proof (cases "trash_params p")
      case (Raise e)
      with Return False show ?thesis by (simp add: get_trash_pickup_details_def)
    next
      case ps: (Return ps)
      from trash_params_Return [OF ps] obtain kvs vx vy where
        p: "p = PyDict kvs" "map_of kvs ''x'' = Some vx" "map_of kvs ''y'' = Some vy"
           "ps = [(''x'', vx), (''y'', vy)]" by blast
      from get_trash_pickup_details_try_trace [of net ps s] obtain evs where
        t: "events (snd (get_trash_pickup_details_try net ps s)) = events s @ Request TRASH_PICKUP_URL ps # evs"
           "requests evs = []" by blast
      obtain r s1 where r: "get_trash_pickup_details_try net ps s = (r, s1)" by (cases "get_trash_pickup_details_try net ps s")
      have "\<exists>evs'. events (snd (get_trash_pickup_details net p s)) = events s @ Request TRASH_PICKUP_URL ps # evs'
              \<and> requests evs' = []"
        using Return False ps r t
        by (auto simp: get_trash_pickup_details_def logger_def requests_append
            split: outcome.splits pyexc.splits)
      then obtain evs' where e: "events (snd (get_trash_pickup_details net p s)) = events s @ Request TRASH_PICKUP_URL ps # evs'"
        "requests evs' = []" by blast
      show ?thesis
        apply (rule exI [of _ "Request TRASH_PICKUP_URL ps # evs'"])
        using e p by simp
    qed
  qed
qed

lemma its_get_trash_pickup_details_trace:
  "\<exists>evs. events (snd (its_get_trash_pickup_details net p s)) = events s @ evs
     \<and> (requests evs = []
        \<or> (\<exists>kvs vx vy. p = PyDict kvs \<and> map_of kvs ''x'' = Some vx \<and> map_of kvs ''y'' = Some vy
              \<and> requests evs = [(TRASH_PICKUP_URL, [(''__workflow_id'', PyStr WORKFLOW_ID), (''x'', vx), (''y'', vy)])]))"
proof (cases "missing_x_or_y p")
  case (Raise e)
  then show ?thesis by (simp add: its_get_trash_pickup_details_def)
next
  case (Return b)
  show ?thesis
  proof (cases b)
    case True
    with Return show ?thesis by (simp add: its_get_trash_pickup_details_def logger_def)
  next
    case False
    show ?thesis
    proof (cases "its_trash_params p")
      case (Raise e)
      with Return False show ?thesis by (simp add: its_get_trash_pickup_details_def)
    next
      case ps: (Return ps)
      from its_trash_params_Return [OF ps] obtain kvs vx vy where
        p: "p = PyDict kvs" "map_of kvs ''x'' = Some vx" "map_of kvs ''y'' = Some vy"
           "ps = [(''__workflow_id'', PyStr WORKFLOW_ID), (''x'', vx), (''y'', vy)]" by blast
      from get_trash_pickup_details_try_trace [of net ps s] obtain evs where
        t: "events (snd (get_trash_pickup_details_try net ps s)) = events s @ Request TRASH_PICKUP_URL ps # evs"
           "requests evs = []" by blast
      obtain r s1 where r: "get_trash_pickup_details_try net ps s = (r, s1)" by (cases "get_trash_pickup_details_try net ps s")
      have "\<exists>evs'. events (snd (its_get_trash_pickup_details net p s)) = events s @ Request TRASH_PICKUP_URL ps # evs'
              \<and> requests evs' = []"
        using Return False ps r t
        by (auto simp: its_get_trash_pickup_details_def logger_def requests_append
            split: outcome.splits pyexc.splits)
      then obtain evs' where e: "events (snd (its_get_trash_pickup_details net p s)) = events s @ Request TRASH_PICKUP_URL ps # evs'"
        "requests evs' = []" by blast
      show ?thesis
        apply (rule exI [of _ "Request TRASH_PICKUP_URL ps # evs'"])
        using e p by simp
    qed
  qed
qed

section \<open>Stage 2 fails locally when a required key is missing\<close>

lemma missing_keys_iff: "missing_keys kvs \<noteq> [] \<longleftrightarrow> \<not> set required_keys \<subseteq> set (map fst kvs)"
  by (auto simp: missing_keys_def filter_empty_conv)

text \<open>
  C8, as amended. For every dict that lacks at least one of the seven required keys,
  \<^verbatim>\<open>get_parcel_info\<close> (in both files) returns \<^verbatim>\<open>None\<close> at once: the count of requests
  sent is unchanged, the trace gains no request, and it gains exactly one message, an
  error made of the fixed text and the whole \<^verbatim>\<open>address_details\<close> dict. The message shows
  the dict that came in, not the list of the keys that are missing.
\<close>

theorem missing_keys_fail_locally:
  assumes "missing_keys kvs \<noteq> []"
  shows "get_parcel_info net (PyDict kvs) s =
           (Return PyNone,
            s\<lparr>events := events s @
               [Log ERROR [Text ''Missing required keys in address_details for parcel API call: '',
                           Val (PyDict kvs)]]\<rparr>)
       \<and> its_get_parcel_info net (PyDict kvs) s =
           (Return PyNone,
            s\<lparr>events := events s @
               [Log ERROR [Text ''Missing required keys in address_details for parcel API call: '',
                           Val (PyDict kvs)]]\<rparr>)"
  using assms by (simp add: missing_keys_iff get_parcel_info_missing its_get_parcel_info_missing)

text \<open>The theorem at a dict that holds the city alone.\<close>

theorem missing_keys_fail_locally_witness:
  "get_parcel_info net_422 (PyDict [(''city'', PyStr ''INDIANAPOLIS'')]) start =
     (Return PyNone,
      \<lparr>requests_sent = 0,
       events = [Log ERROR [Text ''Missing required keys in address_details for parcel API call: '',
                            Val (PyDict [(''city'', PyStr ''INDIANAPOLIS'')])]]\<rparr>)"
proof -
  have h: "missing_keys [(''city'', PyStr ''INDIANAPOLIS'')] \<noteq> []"
    by (simp add: missing_keys_def required_keys_def)
  show ?thesis
    using missing_keys_fail_locally [OF h, of net_422 start] by (simp add: start_def)
qed

text \<open>
  The claim C8 as written says that the log tells which keys were missing. A dict that
  holds \<^verbatim>\<open>address1\<close> and \<^verbatim>\<open>city\<close> alone lacks five keys, and the one message logged
  names none of the five: neither its text nor the dict it shows contains \<^verbatim>\<open>level\<close>,
  \<^verbatim>\<open>number\<close>, \<^verbatim>\<open>state\<close>, \<^verbatim>\<open>tag\<close> or \<^verbatim>\<open>zipcode\<close>.
\<close>

theorem missing_keys_not_logged:
  "get_parcel_info net_422
     (PyDict [(''address1'', PyStr ''1234 MAIN ST''), (''city'', PyStr ''INDIANAPOLIS'')]) start =
     (Return PyNone,
      \<lparr>requests_sent = 0,
       events = [Log ERROR [Text ''Missing required keys in address_details for parcel API call: '',
                            Val (PyDict [(''address1'', PyStr ''1234 MAIN ST''),
                                         (''city'', PyStr ''INDIANAPOLIS'')])]]\<rparr>)
   \<and> missing_keys [(''address1'', PyStr ''1234 MAIN ST''), (''city'', PyStr ''INDIANAPOLIS'')]
       = [''level'', ''number'', ''state'', ''tag'', ''zipcode'']
   \<and> \<not> tells_missing_keys [(''address1'', PyStr ''1234 MAIN ST''), (''city'', PyStr ''INDIANAPOLIS'')]
         (events (snd (get_parcel_info net_422
            (PyDict [(''address1'', PyStr ''1234 MAIN ST''), (''city'', PyStr ''INDIANAPOLIS'')]) start)))"
  by (simp add: get_parcel_info_def required_keys_def py_and_def bind_outcome_def logger_def start_def
      missing_keys_def tells_missing_keys_def sublist_code prefix_code)

section \<open>A parcel that Stage 2 returns passes the check of Stage 3\<close>

lemma stage3_no_missing_log:
  assumes "missing_x_or_y p = Return False"
  shows "Log ERROR [Text ''Missing x or y coordinates in parcel_info: '', Val p]
           \<notin> set (drop (length (events t)) (events (snd (get_trash_pickup_details net p t))))"
  using assms
  by (auto simp: get_trash_pickup_details_def get_trash_pickup_details_try_def http_get_def
      logger_def py_and_def bind_outcome_def
      split: outcome.splits bool.splits response.splits pyexc.splits prod.splits)

lemma its_stage3_no_missing_log:
  assumes "missing_x_or_y p = Return False"
  shows "Log ERROR [Text ''Missing x or y coordinates in parcel_info: '', Val p]
           \<notin> set (drop (length (events t)) (events (snd (its_get_trash_pickup_details net p t))))"
  using assms
  by (auto simp: its_get_trash_pickup_details_def get_trash_pickup_details_try_def http_get_def
      logger_def py_and_def bind_outcome_def
      split: outcome.splits bool.splits response.splits pyexc.splits prod.splits)

text \<open>
  C10. Whatever value \<^verbatim>\<open>get_parcel_info\<close> (of either file) returns other than \<^verbatim>\<open>None\<close>
  contains \<^verbatim>\<open>"x"\<close> and \<^verbatim>\<open>"y"\<close>: both \<^verbatim>\<open>in\<close> tests of Stage 2 were true of it. So the
  condition \<^verbatim>\<open>"x" not in parcel_info or "y" not in parcel_info\<close> of Stage 3 is false for
  it, and the events that Stage 3 (of either file) adds to any trace, with any services,
  never include the error of its missing-coordinates branch.
\<close>

theorem parcel_has_coordinates:
  assumes "get_parcel_info net address_details s = (Return parcel_info, s')
           \<or> its_get_parcel_info net address_details s = (Return parcel_info, s')"
    and "parcel_info \<noteq> PyNone"
  shows "py_in ''x'' parcel_info = Return True \<and> py_in ''y'' parcel_info = Return True
       \<and> missing_x_or_y parcel_info = Return False
       \<and> Log ERROR [Text ''Missing x or y coordinates in parcel_info: '', Val parcel_info]
           \<notin> set (drop (length (events t)) (events (snd (get_trash_pickup_details net3 parcel_info t))))
       \<and> Log ERROR [Text ''Missing x or y coordinates in parcel_info: '', Val parcel_info]
           \<notin> set (drop (length (events t)) (events (snd (its_get_trash_pickup_details net3 parcel_info t))))"
proof -
  have xy: "py_in ''x'' parcel_info = Return True \<and> py_in ''y'' parcel_info = Return True"
    using assms get_parcel_info_success its_get_parcel_info_success by blast
  then have m: "missing_x_or_y parcel_info = Return False"
    by (simp add: missing_x_or_y_False)
  show ?thesis
    using xy m stage3_no_missing_log [OF m] its_stage3_no_missing_log [OF m] by simp
qed

lemma example_parcel_returned:
  "get_parcel_info (example_net one_candidate PyNone) (PyDict example_candidate) start =
     (Return (PyDict example_parcel),
      \<lparr>requests_sent = 1,
       events = [Request PARCEL_URL
                   [(''address1'', PyStr ''1234 MAIN ST''), (''city'', PyStr ''INDIANAPOLIS''),
                    (''level'', PyStr []), (''number'', PyStr ''1234''), (''state'', PyStr ''IN''),
                    (''tag_id'', PyInt 7), (''zipcode'', PyStr ''46204'')]]\<rparr>)"
  by (simp add: get_parcel_info_def required_keys_def py_and_def bind_outcome_def
      example_candidate_def parcel_params_def get_parcel_info_try_def http_get_def start_def
      example_net_def urls_differ example_parcel_def)

text \<open>The theorem at the parcel that the example parcel service returns.\<close>

theorem parcel_has_coordinates_witness:
  "py_in ''x'' (PyDict example_parcel) = Return True \<and> py_in ''y'' (PyDict example_parcel) = Return True
   \<and> missing_x_or_y (PyDict example_parcel) = Return False
   \<and> Log ERROR [Text ''Missing x or y coordinates in parcel_info: '', Val (PyDict example_parcel)]
       \<notin> set (drop (length (events start))
                 (events (snd (get_trash_pickup_details net_422 (PyDict example_parcel) start))))"
proof -
  have p: "PyDict example_parcel \<noteq> PyNone" by simp
  show ?thesis
    using parcel_has_coordinates [OF disjI1 [OF example_parcel_returned] p, of start net_422]
    by simp
qed

section \<open>The request of Stage 3\<close>

text \<open>
  C9, as amended. A call of \<^verbatim>\<open>get_trash_pickup_details\<close> sends no request or one. When
  it sends one, \<^verbatim>\<open>parcel_info\<close> is a dict that holds \<^verbatim>\<open>x\<close> and \<^verbatim>\<open>y\<close>, the request goes
  to the schedule URL, and its query parameters are, in \<^verbatim>\<open>server.py\<close>, exactly \<^verbatim>\<open>x\<close> and
  \<^verbatim>\<open>y\<close> with the values of the parcel; in \<^verbatim>\<open>indy_trash_server.py\<close>, the fixed
  \<^verbatim>\<open>__workflow_id\<close> first and then \<^verbatim>\<open>x\<close> and \<^verbatim>\<open>y\<close>.
\<close>

theorem trash_request_params:
  "(\<exists>evs. events (snd (get_trash_pickup_details net parcel_info s)) = events s @ evs
      \<and> (requests evs = []
         \<or> (\<exists>kvs vx vy. parcel_info = PyDict kvs \<and> map_of kvs ''x'' = Some vx \<and> map_of kvs ''y'' = Some vy
               \<and> requests evs = [(TRASH_PICKUP_URL, [(''x'', vx), (''y'', vy)])])))
   \<and> (\<exists>evs. events (snd (its_get_trash_pickup_details net parcel_info s)) = events s @ evs
      \<and> (requests evs = []
         \<or> (\<exists>kvs vx vy. parcel_info = PyDict kvs \<and> map_of kvs ''x'' = Some vx \<and> map_of kvs ''y'' = Some vy
               \<and> requests evs = [(TRASH_PICKUP_URL,
                     [(''__workflow_id'', PyStr WORKFLOW_ID), (''x'', vx), (''y'', vy)])])))"
  using get_trash_pickup_details_trace [of net parcel_info s]
    its_get_trash_pickup_details_trace [of net parcel_info s]
  by blast

text \<open>
  The claim C9 as written allows two parameters and nothing else. Stage 3 of
  \<^verbatim>\<open>indy_trash_server.py\<close>, given the example parcel, sends three.
\<close>

theorem its_trash_request_has_workflow_id:
  "requests (events (snd (its_get_trash_pickup_details (example_net one_candidate PyNone)
                             (PyDict example_parcel) start)))
     = [(TRASH_PICKUP_URL,
         [(''__workflow_id'', PyStr ''c2fdbada-0999-4a55-ad3e-8552b717c1da''),
          (''x'', PyFloat 10), (''y'', PyFloat 20)])]
   \<and> map (\<lambda>r. map fst (snd r))
        (requests (events (snd (its_get_trash_pickup_details (example_net one_candidate PyNone)
                                  (PyDict example_parcel) start))))
     \<noteq> [[''x'', ''y'']]"
  by (simp add: its_get_trash_pickup_details_def missing_x_or_y_def its_trash_params_def
      bind_outcome_def py_and_def example_parcel_def get_trash_pickup_details_try_def http_get_def
      start_def example_net_def urls_differ logger_def WORKFLOW_ID_def)

section \<open>Stage 1: the answer after the retries\<close>

lemma its_search_address_returns:
  assumes "search_address_try net frag s = (Return v, s1)"
  shows "its_search_address net frag s = (Return v, s1)"
  by (simp add: its_search_address_def assms)

lemma answers_after_0:
  "answers_after net 0 frag s data \<longleftrightarrow>
     net (requests_sent s) SEARCH_GIS_ADDRESS_URL (fragment_params frag) = Body data"
  by (simp add: answers_after_def)

lemma answers_after_retried:
  assumes "answers_after net k frag s data" and "k < depth"
  shows "search_address depth net frag s
           = search_address (depth - k) net ((drop_last_piece ^^ k) frag) (retry_state k frag s)"
    and "net (requests_sent (retry_state k frag s)) SEARCH_GIS_ADDRESS_URL
           (fragment_params ((drop_last_piece ^^ k) frag)) = Body data"
    and "0 < depth - k"
  using assms search_address_retries [of k net s frag depth]
  by (simp_all add: answers_after_def retry_state_sent)

lemma answers_after_logger:
  "answers_after net k frag (logger lv msg s) data = answers_after net k frag s data"
  by (simp add: answers_after_def logger_def)

lemma its_search_address_status:
  assumes "search_address_try net frag s = (Raise (HTTPStatusError c), s1)"
  shows "its_search_address net frag s =
           (Return PyNone, logger ERROR [Text ''Error calling search_gis_address API: '', Exc (HTTPStatusError c)] s1)"
  by (simp add: its_search_address_def assms)

text \<open>
  C6. When the geocoding service, after any number \<open>k\<close> of 422 answers that the depth
  allows, returns a body whose \<^verbatim>\<open>addresses\<close> is a list of more than one candidate,
  \<^verbatim>\<open>search_address\<close> of \<^verbatim>\<open>server.py\<close> returns the first candidate of the list: no
  failure branch is taken, and the only message added after the retries is the warning
  about the ambiguous address. \<^verbatim>\<open>search_address\<close> of \<^verbatim>\<open>indy_trash_server.py\<close>, which has
  no retry, does the same for the answer to its one request.
\<close>

theorem first_candidate_selected:
  assumes "answers_after net k address_fragment s (PyDict kvs)"
    and "k < depth"
    and "map_of kvs ''addresses'' = Some (PyList cs)"
    and "length cs > 1"
  shows "search_address depth net address_fragment s =
           (Return (cs ! 0),
            (retry_state k address_fragment s)
              \<lparr>requests_sent := Suc (requests_sent s + k),
               events := events (retry_state k address_fragment s) @
                 [Request SEARCH_GIS_ADDRESS_URL
                    (fragment_params ((drop_last_piece ^^ k) address_fragment)),
                  Log WARNING [Text (''Ambiguous address found for: ''
                                     @ (drop_last_piece ^^ k) address_fragment)]]\<rparr>)
       \<and> (k = 0 \<longrightarrow>
            its_search_address net address_fragment s =
              (Return (cs ! 0),
               s\<lparr>requests_sent := Suc (requests_sent s),
                 events := events s @
                   [Request SEARCH_GIS_ADDRESS_URL (fragment_params address_fragment),
                    Log WARNING [Text (''Ambiguous address found for: '' @ address_fragment)]]\<rparr>))"
proof -
  let ?f = "(drop_last_piece ^^ k) address_fragment"
  let ?s = "retry_state k address_fragment s"
  note r = answers_after_retried [OF assms(1,2)]
  have "search_address depth net address_fragment s = search_address (depth - k) net ?f ?s"
    by (rule r(1))
  also have "\<dots> = (Return (cs ! 0),
                 ?s\<lparr>requests_sent := Suc (requests_sent ?s),
                    events := events ?s @
                      [Request SEARCH_GIS_ADDRESS_URL (fragment_params ?f),
                       Log WARNING [Text (''Ambiguous address found for: '' @ ?f)]]\<rparr>)"
    using r(2,3) assms(3,4)
    by (intro search_address_returns search_address_try_many)
  finally have server: "search_address depth net address_fragment s =
      (Return (cs ! 0),
                 ?s\<lparr>requests_sent := Suc (requests_sent s + k),
                    events := events ?s @
                      [Request SEARCH_GIS_ADDRESS_URL (fragment_params ?f),
                       Log WARNING [Text (''Ambiguous address found for: '' @ ?f)]]\<rparr>)"
    by (simp add: retry_state_sent)
  have its: "its_search_address net address_fragment s =
              (Return (cs ! 0),
               s\<lparr>requests_sent := Suc (requests_sent s),
                 events := events s @
                   [Request SEARCH_GIS_ADDRESS_URL (fragment_params address_fragment),
                    Log WARNING [Text (''Ambiguous address found for: '' @ address_fragment)]]\<rparr>)"
    if "k = 0"
    using assms that
    by (intro its_search_address_returns search_address_try_many) (simp_all add: answers_after_0)
  from server its show ?thesis by blast
qed

lemma two_candidates_answer:
  "answers_after (net_422_once two_candidates PyNone) 1 ''1234 Main St'' start two_candidates"
  by (simp add: answers_after_def start_def net_422_once_def example_net_def)

text \<open>The theorem at a run with one retry and two candidates.\<close>

theorem first_candidate_selected_witness:
  "search_address example_depth (net_422_once two_candidates PyNone) ''1234 Main St'' start =
     (Return (PyDict example_candidate),
      \<lparr>requests_sent = 2,
       events = [Request SEARCH_GIS_ADDRESS_URL [(''address_fragment'', PyStr ''1234 Main St'')],
                 Log WARNING [Text ''retrying without the street type''],
                 Request SEARCH_GIS_ADDRESS_URL [(''address_fragment'', PyStr ''1234 Main'')],
                 Log WARNING [Text ''Ambiguous address found for: 1234 Main'']]\<rparr>)"
proof -
  have d: "1 < example_depth" by (simp add: example_depth_def)
  have m: "map_of [(''addresses'', PyList [PyDict example_candidate, PyDict [(''address1'', PyStr ''1234 MAIN AVE'')]])]
             ''addresses''
           = Some (PyList [PyDict example_candidate, PyDict [(''address1'', PyStr ''1234 MAIN AVE'')]])"
    by simp
  have l: "length [PyDict example_candidate, PyDict [(''address1'', PyStr ''1234 MAIN AVE'')]] > 1"
    by simp
  show ?thesis
    using first_candidate_selected [OF two_candidates_answer [unfolded two_candidates_def] d m l]
    by (simp add: start_def logger_def fragment_params_def drop_last_piece_def two_candidates_def
        numeral_2_eq_2)
qed

section \<open>Stage 1: the retry on status 422\<close>

lemma split_sp_not_Nil: "split_sp s \<noteq> []"
  by (induction s) (auto split: list.splits)

lemma split_sp_word: "CHR '' '' \<notin> set w \<Longrightarrow> split_sp w = [w]"
  by (induction w) auto

lemma split_sp_word_space:
  "CHR '' '' \<notin> set w \<Longrightarrow> split_sp (w @ CHR '' '' # rest) = w # split_sp rest"
  by (induction w) auto

lemma split_sp_join_sp:
  assumes "ws \<noteq> []" and "\<forall>w \<in> set ws. CHR '' '' \<notin> set w"
  shows "split_sp (join_sp ws) = ws"
  using assms
  by (induction ws rule: join_sp.induct) (simp_all add: split_sp_word split_sp_word_space)

lemma drop_last_piece_join_sp:
  assumes "ws \<noteq> []" and "\<forall>w \<in> set ws. CHR '' '' \<notin> set w"
  shows "drop_last_piece (join_sp ws) = join_sp (butlast ws)"
  using assms by (simp add: drop_last_piece_def split_sp_join_sp)

lemma search_address_try_trace:
  "\<exists>evs. events (snd (search_address_try net frag s))
            = events s @ Request SEARCH_GIS_ADDRESS_URL (fragment_params frag) # evs
         \<and> requests evs = []"
  by (auto simp: search_address_try_def http_get_def logger_def fragment_params_def Let_def
      split: response.splits outcome.splits bool.splits prod.splits)

lemma search_address_extends:
  "\<exists>evs. events (snd (search_address depth net frag s)) = events s @ evs"
proof (induction depth arbitrary: frag s)
  case 0
  then show ?case by (simp add: logger_def)
next
  case (Suc depth)
  obtain r s1 where t: "search_address_try net frag s = (r, s1)"
    by (cases "search_address_try net frag s")
  from search_address_try_trace [of net frag s] t obtain evs where
    e: "events s1 = events s @ Request SEARCH_GIS_ADDRESS_URL (fragment_params frag) # evs"
    by auto
  show ?case
  proof (cases r)
    case (Return v)
    with t e show ?thesis by simp
  next
    case (Raise x)
    show ?thesis
    proof (cases "x = HTTPStatusError 422")
      case True
      from Suc.IH [of "drop_last_piece frag"
          "logger WARNING [Text ''retrying without the street type''] s1"]
      obtain evs' where "events (snd (search_address depth net (drop_last_piece frag)
          (logger WARNING [Text ''retrying without the street type''] s1)))
          = events (logger WARNING [Text ''retrying without the street type''] s1) @ evs'"
        by blast
      with t e Raise True show ?thesis by (simp add: logger_def)
    next
      case False
      with t e Raise show ?thesis by (cases x) (simp_all add: logger_def)
    qed
  qed
qed

lemma search_address_first_request:
  assumes "0 < depth"
  shows "\<exists>evs. events (snd (search_address depth net frag s))
            = events s @ Request SEARCH_GIS_ADDRESS_URL (fragment_params frag) # evs"
proof -
  from assms obtain d where d: "depth = Suc d" by (cases depth) auto
  obtain r s1 where t: "search_address_try net frag s = (r, s1)"
    by (cases "search_address_try net frag s")
  from search_address_try_trace [of net frag s] t obtain evs where
    e: "events s1 = events s @ Request SEARCH_GIS_ADDRESS_URL (fragment_params frag) # evs"
    by auto
  show ?thesis
  proof (cases r)
    case (Return v)
    with t e d show ?thesis by simp
  next
    case (Raise x)
    show ?thesis
    proof (cases "x = HTTPStatusError 422")
      case True
      from search_address_extends [of d net "drop_last_piece frag"
          "logger WARNING [Text ''retrying without the street type''] s1"]
      obtain evs' where "events (snd (search_address d net (drop_last_piece frag)
          (logger WARNING [Text ''retrying without the street type''] s1)))
          = events (logger WARNING [Text ''retrying without the street type''] s1) @ evs'"
        by blast
      with t e d Raise True show ?thesis by (simp add: logger_def)
    next
      case False
      with t e d Raise show ?thesis by (cases x) (simp_all add: logger_def)
    qed
  qed
qed

text \<open>
  C2, as amended. Let the geocoding call for a query yield status 422. In \<^verbatim>\<open>server.py\<close>,
  if the query is made of more than one token joined by single spaces (and the
  interpreter allows one more nested call), Stage 1 logs the warning and then sends a
  second request, for the query without its last token; its result is the result of the
  call on that shorter query. In \<^verbatim>\<open>indy_trash_server.py\<close> Stage 1 returns \<^verbatim>\<open>None\<close> after
  the one request and an error message, whatever the query. What \<^verbatim>\<open>server.py\<close> does with
  a query of a single token is not part of this statement.
\<close>

theorem retry_on_422:
  assumes "net (requests_sent s) SEARCH_GIS_ADDRESS_URL (fragment_params address_fragment)
             = Raises (HTTPStatusError 422)"
  shows "(\<forall>ws. address_fragment = join_sp ws \<and> length ws > 1 \<and> (\<forall>w \<in> set ws. CHR '' '' \<notin> set w)
                \<and> 1 < depth \<longrightarrow>
            search_address depth net address_fragment s =
              search_address (depth - 1) net (join_sp (butlast ws))
                (s\<lparr>requests_sent := Suc (requests_sent s),
                   events := events s @
                     [Request SEARCH_GIS_ADDRESS_URL (fragment_params address_fragment),
                      Log WARNING [Text ''retrying without the street type'']]\<rparr>)
            \<and> (\<exists>evs. events (snd (search_address depth net address_fragment s)) =
                   events s @
                     [Request SEARCH_GIS_ADDRESS_URL (fragment_params address_fragment),
                      Log WARNING [Text ''retrying without the street type''],
                      Request SEARCH_GIS_ADDRESS_URL (fragment_params (join_sp (butlast ws)))] @ evs))
       \<and> its_search_address net address_fragment s =
           (Return PyNone,
            s\<lparr>requests_sent := Suc (requests_sent s),
              events := events s @
                [Request SEARCH_GIS_ADDRESS_URL (fragment_params address_fragment),
                 Log ERROR [Text ''Error calling search_gis_address API: '',
                            Exc (HTTPStatusError 422)]]\<rparr>)"
proof -
  let ?s2 = "s\<lparr>requests_sent := Suc (requests_sent s),
               events := events s @
                 [Request SEARCH_GIS_ADDRESS_URL (fragment_params address_fragment),
                  Log WARNING [Text ''retrying without the street type'']]\<rparr>"
  note t = search_address_try_raises [where net = net and s = s and frag = address_fragment, OF assms]
  have r: "search_address depth net address_fragment s =
          search_address (depth - 1) net (drop_last_piece address_fragment) ?s2"
    if "1 < depth"
    using search_address_422 [OF t, of depth] that by (simp add: logger_def)
  have d: "drop_last_piece address_fragment = join_sp (butlast ws)"
    if "address_fragment = join_sp ws \<and> length ws > 1 \<and> (\<forall>w \<in> set ws. CHR '' '' \<notin> set w)
          \<and> 1 < depth" for ws
  proof -
    from that have "ws \<noteq> []" by auto
    with that show ?thesis by (simp add: drop_last_piece_join_sp)
  qed
  have i: "its_search_address net address_fragment s =
           (Return PyNone,
            s\<lparr>requests_sent := Suc (requests_sent s),
              events := events s @
                [Request SEARCH_GIS_ADDRESS_URL (fragment_params address_fragment),
                 Log ERROR [Text ''Error calling search_gis_address API: '',
                            Exc (HTTPStatusError 422)]]\<rparr>)"
    using its_search_address_status [OF t] by (simp add: logger_def)
  show ?thesis
  proof (intro conjI allI impI)
    fix ws
    assume a: "address_fragment = join_sp ws \<and> length ws > 1 \<and> (\<forall>w \<in> set ws. CHR '' '' \<notin> set w)
                 \<and> 1 < depth"
    then have dp: "1 < depth" "0 < depth - 1" by simp_all
    from d [OF a] r [OF dp(1)]
    show eq: "search_address depth net address_fragment s =
              search_address (depth - 1) net (join_sp (butlast ws)) ?s2"
      by simp
    from search_address_first_request [OF dp(2), of net "join_sp (butlast ws)" ?s2]
    obtain evs where "events (snd (search_address (depth - 1) net (join_sp (butlast ws)) ?s2))
        = events ?s2 @ Request SEARCH_GIS_ADDRESS_URL (fragment_params (join_sp (butlast ws))) # evs"
      by blast
    with eq show "\<exists>evs. events (snd (search_address depth net address_fragment s)) =
                   events s @
                     [Request SEARCH_GIS_ADDRESS_URL (fragment_params address_fragment),
                      Log WARNING [Text ''retrying without the street type''],
                      Request SEARCH_GIS_ADDRESS_URL (fragment_params (join_sp (butlast ws)))] @ evs"
      by simp
  qed (rule i)
qed

lemma no_candidates_try:
  assumes "0 < requests_sent s"
  shows "search_address_try (net_422_once no_candidates PyNone) frag s =
           (Return PyNone,
            s\<lparr>requests_sent := Suc (requests_sent s),
              events := events s @
                [Request SEARCH_GIS_ADDRESS_URL (fragment_params frag),
                 Log ERROR [Text (''No address found for: '' @ frag)]]\<rparr>)"
  using assms
  by (intro search_address_try_none [where kvs = "[(''addresses'', PyList [])]"])
    (simp_all add: net_422_once_def example_net_def no_candidates_def)

lemma first_answer_422:
  "net_422_once geo sched (requests_sent start) SEARCH_GIS_ADDRESS_URL (fragment_params frag)
     = Raises (HTTPStatusError 422)"
  by (simp add: net_422_once_def start_def)

lemma example_depth_bounds: "0 < example_depth" "1 < example_depth" "0 < example_depth - 1"
  by (simp_all add: example_depth_def)

text \<open>
  The theorem at a query of three tokens, with a geocoder that answers the first request
  with status 422 and the second with no candidate: the run ends, and the second request
  is for the first two tokens.
\<close>

theorem retry_on_422_witness:
  "search_address example_depth (net_422_once no_candidates PyNone) ''1234 Main St'' start =
     (Return PyNone,
      \<lparr>requests_sent = 2,
       events = [Request SEARCH_GIS_ADDRESS_URL [(''address_fragment'', PyStr ''1234 Main St'')],
                 Log WARNING [Text ''retrying without the street type''],
                 Request SEARCH_GIS_ADDRESS_URL [(''address_fragment'', PyStr ''1234 Main'')],
                 Log ERROR [Text ''No address found for: 1234 Main'']]\<rparr>)
   \<and> its_search_address (net_422_once no_candidates PyNone) ''1234 Main St'' start =
       (Return PyNone,
        \<lparr>requests_sent = 1,
         events = [Request SEARCH_GIS_ADDRESS_URL [(''address_fragment'', PyStr ''1234 Main St'')],
                   Log ERROR [Text ''Error calling search_gis_address API: '',
                              Exc (HTTPStatusError 422)]]\<rparr>)"
proof -
  let ?net = "net_422_once no_candidates PyNone"
  let ?s2 = "start\<lparr>requests_sent := Suc (requests_sent start),
               events := events start @
                 [Request SEARCH_GIS_ADDRESS_URL (fragment_params ''1234 Main St''),
                  Log WARNING [Text ''retrying without the street type'']]\<rparr>"
  from retry_on_422 [where net = ?net and s = start and address_fragment = "''1234 Main St''"
      and depth = example_depth, OF first_answer_422]
  have "(''1234 Main St'' = join_sp [''1234'', ''Main'', ''St'']
          \<and> length [''1234'', ''Main'', ''St''] > 1
          \<and> (\<forall>w \<in> set [''1234'', ''Main'', ''St'']. CHR '' '' \<notin> set w)
          \<and> 1 < example_depth \<longrightarrow>
         search_address example_depth ?net ''1234 Main St'' start =
           search_address (example_depth - 1) ?net (join_sp (butlast [''1234'', ''Main'', ''St''])) ?s2)
       \<and> its_search_address ?net ''1234 Main St'' start =
           (Return PyNone,
            start\<lparr>requests_sent := Suc (requests_sent start),
              events := events start @
                [Request SEARCH_GIS_ADDRESS_URL (fragment_params ''1234 Main St''),
                 Log ERROR [Text ''Error calling search_gis_address API: '',
                            Exc (HTTPStatusError 422)]]\<rparr>)"
    by blast
  then have a: "search_address example_depth ?net ''1234 Main St'' start =
           search_address (example_depth - 1) ?net ''1234 Main'' ?s2"
    and b: "its_search_address ?net ''1234 Main St'' start =
           (Return PyNone,
            start\<lparr>requests_sent := Suc (requests_sent start),
              events := events start @
                [Request SEARCH_GIS_ADDRESS_URL (fragment_params ''1234 Main St''),
                 Log ERROR [Text ''Error calling search_gis_address API: '',
                            Exc (HTTPStatusError 422)]]\<rparr>)"
    by (simp_all add: example_depth_def)
  have "0 < requests_sent ?s2" by simp
  from search_address_returns [OF no_candidates_try [OF this] example_depth_bounds(3)]
  have c: "search_address (example_depth - 1) ?net ''1234 Main'' ?s2 =
      (Return PyNone,
       ?s2\<lparr>requests_sent := Suc (requests_sent ?s2),
          events := events ?s2 @
            [Request SEARCH_GIS_ADDRESS_URL (fragment_params ''1234 Main''),
             Log ERROR [Text (''No address found for: '' @ ''1234 Main'')]]\<rparr>)" .
  from a b c show ?thesis
    by (simp add: start_def fragment_params_def numeral_2_eq_2)
qed

text \<open>
  The claim C2 as written fails on two inputs. In \<^verbatim>\<open>indy_trash_server.py\<close> the query
  \<^verbatim>\<open>"Main St"\<close> of two tokens is not retried. In \<^verbatim>\<open>server.py\<close> the query \<^verbatim>\<open>"Main St "\<close>
  of two tokens, which ends with a space, is retried as \<^verbatim>\<open>"Main St"\<close>: the piece after the
  last space is dropped, here the empty one, and the trailing token stays.
\<close>

theorem no_retry_or_token_kept:
  "its_search_address net_422 ''Main St'' start =
     (Return PyNone,
      \<lparr>requests_sent = 1,
       events = [Request SEARCH_GIS_ADDRESS_URL [(''address_fragment'', PyStr ''Main St'')],
                 Log ERROR [Text ''Error calling search_gis_address API: '',
                            Exc (HTTPStatusError 422)]]\<rparr>)
   \<and> search_address example_depth (net_422_once no_candidates PyNone) ''Main St '' start =
       (Return PyNone,
        \<lparr>requests_sent = 2,
         events = [Request SEARCH_GIS_ADDRESS_URL [(''address_fragment'', PyStr ''Main St '')],
                   Log WARNING [Text ''retrying without the street type''],
                   Request SEARCH_GIS_ADDRESS_URL [(''address_fragment'', PyStr ''Main St'')],
                   Log ERROR [Text ''No address found for: Main St'']]\<rparr>)"
proof -
  let ?net = "net_422_once no_candidates PyNone"
  let ?s1 = "start\<lparr>requests_sent := Suc (requests_sent start),
               events := events start @
                 [Request SEARCH_GIS_ADDRESS_URL (fragment_params ''Main St '')]\<rparr>"
  let ?s2 = "logger WARNING [Text ''retrying without the street type''] ?s1"
  have a: "search_address_try ?net ''Main St '' start = (Raise (HTTPStatusError 422), ?s1)"
    by (rule search_address_try_raises) (rule first_answer_422)
  have "0 < requests_sent ?s2" by (simp add: logger_def)
  from search_address_returns [OF no_candidates_try [OF this] example_depth_bounds(3)]
  have b: "search_address (example_depth - 1) ?net ''Main St'' ?s2 =
      (Return PyNone,
       ?s2\<lparr>requests_sent := Suc (requests_sent ?s2),
          events := events ?s2 @
            [Request SEARCH_GIS_ADDRESS_URL (fragment_params ''Main St''),
             Log ERROR [Text (''No address found for: '' @ ''Main St'')]]\<rparr>)" .
  have c: "search_address example_depth ?net ''Main St '' start =
       (Return PyNone,
        \<lparr>requests_sent = 2,
         events = [Request SEARCH_GIS_ADDRESS_URL [(''address_fragment'', PyStr ''Main St '')],
                   Log WARNING [Text ''retrying without the street type''],
                   Request SEARCH_GIS_ADDRESS_URL [(''address_fragment'', PyStr ''Main St'')],
                   Log ERROR [Text ''No address found for: Main St'']]\<rparr>)"
    using search_address_422 [OF a example_depth_bounds(1)] b
    by (simp add: logger_def drop_last_piece_def start_def fragment_params_def numeral_2_eq_2)
  have d: "its_search_address net_422 ''Main St'' start =
     (Return PyNone,
      \<lparr>requests_sent = 1,
       events = [Request SEARCH_GIS_ADDRESS_URL [(''address_fragment'', PyStr ''Main St'')],
                 Log ERROR [Text ''Error calling search_gis_address API: '',
                            Exc (HTTPStatusError 422)]]\<rparr>)"
    by (simp add: its_search_address_def search_address_try_def http_get_def net_422_def start_def
        logger_def)
  from c d show ?thesis by simp
qed

section \<open>The retries of Stage 1 are not bounded by the tokens\<close>

lemma drop_last_piece_word: "CHR '' '' \<notin> set w \<Longrightarrow> drop_last_piece w = []"
  by (simp add: drop_last_piece_def split_sp_word)

lemma drop_last_piece_funpow_word:
  "CHR '' '' \<notin> set w \<Longrightarrow> (drop_last_piece ^^ Suc i) w = []"
  by (induction i) (simp_all add: drop_last_piece_word)

lemma fragments_of_word:
  assumes "CHR '' '' \<notin> set w"
  shows "map (\<lambda>i. fragment_params ((drop_last_piece ^^ i) w)) [0..<Suc k]
           = fragment_params w # replicate k (fragment_params [])"
proof (induction k)
  case 0
  then show ?case by simp
next
  case (Suc k)
  have "map (\<lambda>i. fragment_params ((drop_last_piece ^^ i) w)) [0..<Suc (Suc k)]
          = map (\<lambda>i. fragment_params ((drop_last_piece ^^ i) w)) [0..<Suc k]
            @ [fragment_params ((drop_last_piece ^^ Suc k) w)]"
    by simp
  also have "\<dots> = (fragment_params w # replicate k (fragment_params [])) @ [fragment_params []]"
    using Suc.IH drop_last_piece_funpow_word [OF assms, of k] by simp
  also have "\<dots> = fragment_params w # replicate (Suc k) (fragment_params [])"
    by (simp add: replicate_append_same)
  finally show ?case .
qed

lemma retry_state_search_requests:
  "requests_to SEARCH_GIS_ADDRESS_URL (events (retry_state k frag s))
     = requests_to SEARCH_GIS_ADDRESS_URL (events s)
       @ map (\<lambda>i. fragment_params ((drop_last_piece ^^ i) frag)) [0..<k]"
proof (induction k arbitrary: frag s)
  case 0
  then show ?case by simp
next
  case (Suc k)
  have "map (\<lambda>i. fragment_params ((drop_last_piece ^^ i) frag)) [0..<Suc k]
          = fragment_params frag
            # map (\<lambda>i. fragment_params ((drop_last_piece ^^ i) (drop_last_piece frag))) [0..<k]"
    by (simp add: upt_conv_Cons map_Suc_upt [symmetric] funpow_swap1 del: upt_Suc)
  with Suc.IH show ?case
    by (simp add: logger_def requests_to_append requests_to_simps del: upt_Suc)
qed

lemma py_get_raises: "py_get v k d = Raise e \<Longrightarrow> e = AttributeError"
  by (cases v) auto

lemma py_getitem_raises: "py_getitem v k = Raise e \<Longrightarrow> e = KeyError \<or> e = TypeError"
  by (cases v) (auto split: option.splits)

lemma py_getitem0_raises:
  "py_getitem0 v = Raise e \<Longrightarrow> e = IndexError \<or> e = KeyError \<or> e = TypeError"
  by (cases v rule: py_getitem0.cases) auto

lemma py_len_raises: "py_len v = Raise e \<Longrightarrow> e = TypeError"
  by (cases v) auto

lemma addresses_len_raises:
  "addresses_len data cmp = Raise e \<Longrightarrow> e \<in> {AttributeError, KeyError, TypeError}"
  by (auto simp: addresses_len_def py_and_def bind_outcome_def
      split: outcome.splits if_splits
      dest: py_get_raises py_getitem_raises py_len_raises)

lemma first_address_raises:
  "first_address data = Raise e \<Longrightarrow> e \<in> {IndexError, KeyError, TypeError}"
  by (auto simp: first_address_def bind_outcome_def split: outcome.splits
      dest: py_getitem_raises py_getitem0_raises)

lemma search_address_try_body_no_status:
  assumes "net (requests_sent s) SEARCH_GIS_ADDRESS_URL (fragment_params frag) = Body data"
  shows "fst (search_address_try net frag s) \<noteq> Raise (HTTPStatusError c)"
  using assms
  by (auto simp: search_address_try_def http_get_def fragment_params_def Let_def
      split: outcome.splits bool.splits
      dest: addresses_len_raises first_address_raises)

lemma search_address_body_trace:
  assumes "net (requests_sent s) SEARCH_GIS_ADDRESS_URL (fragment_params frag) = Body data"
    and "0 < depth"
  shows "\<exists>evs. events (snd (search_address depth net frag s))
            = events s @ Request SEARCH_GIS_ADDRESS_URL (fragment_params frag) # evs
          \<and> requests evs = []"
proof -
  from assms(2) obtain d where d: "depth = Suc d" by (cases depth) auto
  obtain r s1 where t: "search_address_try net frag s = (r, s1)"
    by (cases "search_address_try net frag s")
  from search_address_try_trace [of net frag s] t obtain evs where
    e: "events s1 = events s @ Request SEARCH_GIS_ADDRESS_URL (fragment_params frag) # evs"
      "requests evs = []"
    by auto
  show ?thesis
  proof (cases r)
    case (Return v)
    with t e d show ?thesis by simp
  next
    case (Raise x)
    from search_address_try_body_no_status
           [where net = net and s = s and frag = frag and c = 422, OF assms(1)] t Raise
    have "x \<noteq> HTTPStatusError 422" by auto
    with t e d Raise show ?thesis by (cases x) (simp_all add: logger_def requests_append)
  qed
qed

text \<open>
  C7. The claim bounds the depth of the retry recursion by the number of tokens of the
  query. \<^verbatim>\<open>search_address\<close> of \<^verbatim>\<open>server.py\<close> has no such bound: it retries on every 422
  answer, whatever is left of the fragment. From a fragment without a space, so of one
  token at most, \<open>k\<close> answers of 422 (as many as the interpreter's depth allows) draw
  \<open>k + 1\<close> requests: one for the fragment and \<open>k\<close> for the empty string.
\<close>

theorem retries_not_bounded_by_tokens:
  assumes "CHR '' '' \<notin> set address_fragment"
    and "answers_after net k address_fragment s data"
    and "k < depth"
  shows "requests_to SEARCH_GIS_ADDRESS_URL
           (events (snd (search_address depth net address_fragment s)))
         = requests_to SEARCH_GIS_ADDRESS_URL (events s)
           @ fragment_params address_fragment # replicate k (fragment_params [])"
proof -
  let ?f = "(drop_last_piece ^^ k) address_fragment"
  let ?s = "retry_state k address_fragment s"
  note r = answers_after_retried [OF assms(2,3)]
  from search_address_body_trace [where net = net and s = ?s and frag = ?f, OF r(2,3)]
  obtain evs where
    "events (snd (search_address (depth - k) net ?f ?s))
       = events ?s @ Request SEARCH_GIS_ADDRESS_URL (fragment_params ?f) # evs"
    "requests evs = []"
    by blast
  with r(1) have "requests_to SEARCH_GIS_ADDRESS_URL
           (events (snd (search_address depth net address_fragment s)))
      = requests_to SEARCH_GIS_ADDRESS_URL (events ?s) @ [fragment_params ?f]"
    by (simp add: requests_to_append requests_to_simps requests_to_Nil)
  also have "\<dots> = requests_to SEARCH_GIS_ADDRESS_URL (events s)
      @ map (\<lambda>i. fragment_params ((drop_last_piece ^^ i) address_fragment)) [0..<Suc k]"
    by (simp add: retry_state_search_requests)
  finally show ?thesis
    by (simp only: fragments_of_word [OF assms(1)])
qed

text \<open>
  The theorem at the query \<^verbatim>\<open>"Main"\<close> of one token, with a geocoder that answers the first
  three requests with status 422 and the fourth with no candidate: four requests.
\<close>

theorem retries_not_bounded_by_tokens_witness:
  "requests_to SEARCH_GIS_ADDRESS_URL
     (events (snd (search_address example_depth (net_422_times 3 no_candidates PyNone) ''Main'' start)))
   = [[(''address_fragment'', PyStr ''Main'')], [(''address_fragment'', PyStr [])],
      [(''address_fragment'', PyStr [])], [(''address_fragment'', PyStr [])]]"
proof -
  have w: "CHR '' '' \<notin> set ''Main''" by simp
  have a: "answers_after (net_422_times 3 no_candidates PyNone) 3 ''Main'' start no_candidates"
    by (simp add: answers_after_def net_422_times_def start_def example_net_def)
  have d: "3 < example_depth" by (simp add: example_depth_def)
  show ?thesis
    using retries_not_bounded_by_tokens [OF w a d]
    by (simp add: start_def requests_to_simps fragment_params_def numeral_3_eq_3)
qed

text \<open>
  The recursion does end: when every answer is 422, \<^verbatim>\<open>search_address\<close> sends as many
  requests as the interpreter's depth allows, then returns \<^verbatim>\<open>None\<close>.
\<close>

lemma search_address_gives_up:
  "fst (search_address depth net_422 frag s) = Return PyNone
   \<and> length (requests_to SEARCH_GIS_ADDRESS_URL (events (snd (search_address depth net_422 frag s))))
       = length (requests_to SEARCH_GIS_ADDRESS_URL (events s)) + depth"
proof (induction depth arbitrary: frag s)
  case 0
  then show ?case by (simp add: logger_def requests_to_append requests_to_simps)
next
  case (Suc depth)
  have t: "search_address_try net_422 frag s =
             (Raise (HTTPStatusError 422),
              s\<lparr>requests_sent := Suc (requests_sent s),
                events := events s @ [Request SEARCH_GIS_ADDRESS_URL (fragment_params frag)]\<rparr>)"
    by (rule search_address_try_raises) (simp add: net_422_def)
  show ?case
    using Suc.IH [of "drop_last_piece frag"
        "logger WARNING [Text ''retrying without the street type'']
           (s\<lparr>requests_sent := Suc (requests_sent s),
              events := events s @ [Request SEARCH_GIS_ADDRESS_URL (fragment_params frag)]\<rparr>)"]
    by (simp add: t logger_def requests_to_append requests_to_simps)
qed

section \<open>The pipeline when the geocoder finds no candidate\<close>

lemma format_result_trace:
  "\<exists>evs. events (snd (format_result to_str address t s)) = events s @ evs \<and> requests evs = []"
  by (cases t) (simp_all add: format_result_def logger_def Let_def)

lemma stage1_one_candidate:
  assumes "answers_after net k frag s (PyDict kvs)"
    and "k < depth"
    and "map_of kvs ''addresses'' = Some (PyList [c])"
  shows "\<exists>s1. search_address depth net frag s = (Return c, s1)
           \<and> requests_to PARCEL_URL (events s1) = requests_to PARCEL_URL (events s)
           \<and> requests_to TRASH_PICKUP_URL (events s1) = requests_to TRASH_PICKUP_URL (events s)"
proof -
  let ?f = "(drop_last_piece ^^ k) frag"
  let ?s = "retry_state k frag s"
  let ?s1 = "?s\<lparr>requests_sent := Suc (requests_sent ?s),
                events := events ?s @ [Request SEARCH_GIS_ADDRESS_URL (fragment_params ?f)]\<rparr>"
  have "search_address (depth - k) net ?f ?s = (Return c, ?s1)"
    using answers_after_retried(2,3) [OF assms(1,2)] assms(3)
    by (intro search_address_returns search_address_try_one)
  with answers_after_retried(1) [OF assms(1,2)]
  have "search_address depth net frag s = (Return c, ?s1)" by simp
  moreover have "requests_to PARCEL_URL (events ?s1) = requests_to PARCEL_URL (events s)"
    "requests_to TRASH_PICKUP_URL (events ?s1) = requests_to TRASH_PICKUP_URL (events s)"
    using urls_differ
    by (simp_all add: requests_to_append requests_to_simps retry_state_requests)
  ultimately show ?thesis by blast
qed

lemma stage1_no_candidates:
  assumes "answers_after net k frag s (PyDict kvs)"
    and "k < depth"
    and "map_of kvs ''addresses'' = Some (PyList [])"
  shows "\<exists>s1. search_address depth net frag s = (Return PyNone, s1)
           \<and> requests_to PARCEL_URL (events s1) = requests_to PARCEL_URL (events s)
           \<and> requests_to TRASH_PICKUP_URL (events s1) = requests_to TRASH_PICKUP_URL (events s)"
proof -
  let ?f = "(drop_last_piece ^^ k) frag"
  let ?s = "retry_state k frag s"
  let ?s1 = "?s\<lparr>requests_sent := Suc (requests_sent ?s),
                events := events ?s @ [Request SEARCH_GIS_ADDRESS_URL (fragment_params ?f),
                                       Log ERROR [Text (''No address found for: '' @ ?f)]]\<rparr>"
  have "search_address (depth - k) net ?f ?s = (Return PyNone, ?s1)"
    using answers_after_retried(2,3) [OF assms(1,2)] assms(3)
    by (intro search_address_returns search_address_try_none)
  with answers_after_retried(1) [OF assms(1,2)]
  have "search_address depth net frag s = (Return PyNone, ?s1)" by simp
  moreover have "requests_to PARCEL_URL (events ?s1) = requests_to PARCEL_URL (events s)"
    "requests_to TRASH_PICKUP_URL (events ?s1) = requests_to TRASH_PICKUP_URL (events s)"
    using urls_differ
    by (simp_all add: requests_to_append requests_to_simps retry_state_requests)
  ultimately show ?thesis by blast
qed

text \<open>
  C4. When the geocoding service, after any number \<open>k\<close> of 422 answers that the depth
  allows, returns a body whose \<^verbatim>\<open>addresses\<close> is an empty list, \<^verbatim>\<open>get_indy_trash_day\<close> of \<^verbatim>\<open>server.py\<close> returns
  exactly the address-validation failure sentence, and the run has sent no request to
  the parcel service and none to the schedule service. The same holds in
  \<^verbatim>\<open>indy_trash_server.py\<close> for the answer to the one request of its Stage 1.
\<close>

theorem no_candidates_address_failure:
  assumes "answers_after net k address s (PyDict kvs)"
    and "k < depth"
    and "map_of kvs ''addresses'' = Some (PyList [])"
  shows "(\<exists>s'. get_indy_trash_day depth to_str net address s = (Return address_failure, s')
            \<and> requests_to PARCEL_URL (events s') = requests_to PARCEL_URL (events s)
            \<and> requests_to TRASH_PICKUP_URL (events s') = requests_to TRASH_PICKUP_URL (events s))
       \<and> (k = 0 \<longrightarrow>
            (\<exists>s'. its_get_indy_trash_day to_str net address s = (Return address_failure, s')
               \<and> requests_to PARCEL_URL (events s') = requests_to PARCEL_URL (events s)
               \<and> requests_to TRASH_PICKUP_URL (events s') = requests_to TRASH_PICKUP_URL (events s)))"
proof -
  let ?s0 = "logger INFO [Text (''Received request for address: '' @ address)] s"
  have a: "answers_after net k address ?s0 (PyDict kvs)"
    using assms(1) by (simp add: answers_after_logger)
  have e0: "requests_to PARCEL_URL (events ?s0) = requests_to PARCEL_URL (events s)"
    "requests_to TRASH_PICKUP_URL (events ?s0) = requests_to TRASH_PICKUP_URL (events s)"
    by (simp_all add: logger_def requests_to_append requests_to_simps)
  from stage1_no_candidates [OF a assms(2,3)] obtain s1 where
    s1: "search_address depth net address ?s0 = (Return PyNone, s1)"
      "requests_to PARCEL_URL (events s1) = requests_to PARCEL_URL (events ?s0)"
      "requests_to TRASH_PICKUP_URL (events s1) = requests_to TRASH_PICKUP_URL (events ?s0)"
    by blast
  have server: "\<exists>s'. get_indy_trash_day depth to_str net address s = (Return address_failure, s')
            \<and> requests_to PARCEL_URL (events s') = requests_to PARCEL_URL (events s)
            \<and> requests_to TRASH_PICKUP_URL (events s') = requests_to TRASH_PICKUP_URL (events s)"
    using s1 e0 by (simp add: get_indy_trash_day_def)
  have its: "\<exists>s'. its_get_indy_trash_day to_str net address s = (Return address_failure, s')
               \<and> requests_to PARCEL_URL (events s') = requests_to PARCEL_URL (events s)
               \<and> requests_to TRASH_PICKUP_URL (events s') = requests_to TRASH_PICKUP_URL (events s)"
    if "k = 0"
  proof -
    from a that have "net (requests_sent ?s0) SEARCH_GIS_ADDRESS_URL (fragment_params address)
        = Body (PyDict kvs)"
      by (simp add: answers_after_0)
    then have "search_address_try net address ?s0 =
        (Return PyNone,
         ?s0\<lparr>requests_sent := Suc (requests_sent ?s0),
            events := events ?s0 @
              [Request SEARCH_GIS_ADDRESS_URL (fragment_params address),
               Log ERROR [Text (''No address found for: '' @ address)]]\<rparr>)"
      using assms(3) by (intro search_address_try_none)
    from its_search_address_returns [OF this]
    show ?thesis
      using urls_differ
      by (simp add: its_get_indy_trash_day_def logger_def requests_to_append requests_to_simps)
  qed
  from server its show ?thesis by blast
qed

lemma no_candidates_answers:
  "answers_after (net_422_once (PyDict [(''addresses'', PyList [])]) PyNone) 1 ''1234 Main St'' start
     (PyDict [(''addresses'', PyList [])])"
  "answers_after (example_net (PyDict [(''addresses'', PyList [])]) PyNone) 0 ''1234 Main St'' start
     (PyDict [(''addresses'', PyList [])])"
  by (simp_all add: answers_after_def start_def net_422_once_def example_net_def)

text \<open>
  The theorem at a run of \<^verbatim>\<open>server.py\<close> with one retry, and at a run of
  \<^verbatim>\<open>indy_trash_server.py\<close>.
\<close>

theorem no_candidates_address_failure_witness:
  "(\<exists>s'. get_indy_trash_day example_depth example_to_str (net_422_once no_candidates PyNone)
            ''1234 Main St'' start
            = (Return address_failure, s')
          \<and> requests_to PARCEL_URL (events s') = []
          \<and> requests_to TRASH_PICKUP_URL (events s') = [])
   \<and> (\<exists>s'. its_get_indy_trash_day example_to_str (example_net no_candidates PyNone) ''1234 Main St'' start
            = (Return address_failure, s')
          \<and> requests_to PARCEL_URL (events s') = []
          \<and> requests_to TRASH_PICKUP_URL (events s') = [])"
proof -
  have m: "map_of [(''addresses'', PyList [])] ''addresses'' = Some (PyList [])" by simp
  show ?thesis
    using no_candidates_address_failure
            [OF no_candidates_answers(1) example_depth_bounds(2) m, of example_to_str]
      no_candidates_address_failure
            [OF no_candidates_answers(2) example_depth_bounds(1) m, of example_to_str]
    by (simp add: start_def requests_to_simps no_candidates_def)
qed

section \<open>The pipeline when the geocoder finds one candidate\<close>

lemma required_keys_present:
  assumes "map_of c ''address1'' = Some a" "map_of c ''city'' = Some ci" "map_of c ''level'' = Some le"
    "map_of c ''number'' = Some nu" "map_of c ''state'' = Some st" "map_of c ''tag'' = Some ta"
    "map_of c ''zipcode'' = Some zi"
  shows "py_all_in required_keys (PyDict c) = Return True"
  using assms [THEN map_of_in_keys] by (simp add: py_all_in_dict required_keys_def)

lemma get_parcel_info_dict_trace:
  assumes "map_of c ''address1'' = Some a" "map_of c ''city'' = Some ci" "map_of c ''level'' = Some le"
    "map_of c ''number'' = Some nu" "map_of c ''state'' = Some st" "map_of c ''tag'' = Some ta"
    "map_of c ''zipcode'' = Some zi"
  shows "\<exists>p s2 evs. get_parcel_info net (PyDict c) s1 = (Return p, s2)
           \<and> events s2 = events s1 @
                Request PARCEL_URL [(''address1'', a), (''city'', ci), (''level'', le), (''number'', nu),
                                    (''state'', st), (''tag_id'', ta), (''zipcode'', zi)] # evs
           \<and> requests evs = []"
proof -
  let ?ps = "[(''address1'', a), (''city'', ci), (''level'', le), (''number'', nu),
              (''state'', st), (''tag_id'', ta), (''zipcode'', zi)]"
  obtain r s' where t: "get_parcel_info_try net ?ps s1 = (r, s')"
    by (cases "get_parcel_info_try net ?ps s1")
  from get_parcel_info_try_trace [of net ?ps s1] t obtain evs where
    e: "events s' = events s1 @ Request PARCEL_URL ?ps # evs" "requests evs = []"
    by auto
  show ?thesis
    using required_keys_present [OF assms] parcel_params_dict [OF assms] t e
    by (cases r) (auto simp: get_parcel_info_def logger_def requests_append split: pyexc.splits)
qed

lemma its_get_parcel_info_dict_trace:
  assumes "map_of c ''address1'' = Some a" "map_of c ''city'' = Some ci" "map_of c ''level'' = Some le"
    "map_of c ''number'' = Some nu" "map_of c ''state'' = Some st" "map_of c ''tag'' = Some ta"
    "map_of c ''zipcode'' = Some zi"
  shows "\<exists>p s2 evs. its_get_parcel_info net (PyDict c) s1 = (Return p, s2)
           \<and> events s2 = events s1 @
                Request PARCEL_URL [(''address1'', a), (''city'', ci), (''level'', le), (''number'', nu),
                                    (''state'', st), (''tag_id'', ta), (''zipcode'', zi)] # evs
           \<and> requests evs = []"
proof -
  let ?ps = "[(''address1'', a), (''city'', ci), (''level'', le), (''number'', nu),
              (''state'', st), (''tag_id'', ta), (''zipcode'', zi)]"
  obtain r s' where t: "get_parcel_info_try net ?ps s1 = (r, s')"
    by (cases "get_parcel_info_try net ?ps s1")
  from get_parcel_info_try_trace [of net ?ps s1] t obtain evs where
    e: "events s' = events s1 @ Request PARCEL_URL ?ps # evs" "requests evs = []"
    by auto
  show ?thesis
    using required_keys_present [OF assms] parcel_params_dict [OF assms] t e
    by (cases r) (auto simp: its_get_parcel_info_def logger_def requests_append split: pyexc.splits)
qed

lemma stage3_no_parcel_request:
  "\<exists>evs. events (snd (get_trash_pickup_details net p s)) = events s @ evs
         \<and> requests_to PARCEL_URL evs = []"
  using get_trash_pickup_details_trace [of net p s] urls_differ
  by (auto simp: requests_to_def)

lemma its_stage3_no_parcel_request:
  "\<exists>evs. events (snd (its_get_trash_pickup_details net p s)) = events s @ evs
         \<and> requests_to PARCEL_URL evs = []"
  using its_get_trash_pickup_details_trace [of net p s] urls_differ
  by (auto simp: requests_to_def)

lemma after_stage2:
  "\<exists>r s'. (if \<not> py_truthy p then (Return parcel_failure, s2)
            else (case get_trash_pickup_details net p s2 of
                    (Raise e, s3) \<Rightarrow> (Raise e, s3)
                  | (Return trash_details, s3) \<Rightarrow>
                      (if \<not> py_truthy trash_details then (Return trash_failure, s3)
                       else format_result to_str address trash_details s3)))
          = (r, s')
        \<and> requests_to PARCEL_URL (events s') = requests_to PARCEL_URL (events s2)"
proof (cases "py_truthy p")
  case False
  then show ?thesis by simp
next
  case True
  obtain r3 s3 where t: "get_trash_pickup_details net p s2 = (r3, s3)"
    by (cases "get_trash_pickup_details net p s2")
  from stage3_no_parcel_request [of net p s2] t
  have e3: "requests_to PARCEL_URL (events s3) = requests_to PARCEL_URL (events s2)"
    by (auto simp: requests_to_append)
  show ?thesis
  proof (cases r3)
    case (Raise e)
    with True t e3 show ?thesis by simp
  next
    case (Return td)
    obtain r4 s4 where f: "format_result to_str address td s3 = (r4, s4)"
      by (cases "format_result to_str address td s3")
    from format_result_trace [of to_str address td s3] f
    have "requests_to PARCEL_URL (events s4) = requests_to PARCEL_URL (events s3)"
      by (auto simp: requests_to_append requests_to_Nil)
    with True t e3 Return f show ?thesis by simp
  qed
qed

lemma its_after_stage2:
  "\<exists>r s'. (if \<not> py_truthy p then (Return parcel_failure, s2)
            else (case its_get_trash_pickup_details net p s2 of
                    (Raise e, s3) \<Rightarrow> (Raise e, s3)
                  | (Return trash_details, s3) \<Rightarrow>
                      (if \<not> py_truthy trash_details then (Return trash_failure, s3)
                       else format_result to_str address trash_details s3)))
          = (r, s')
        \<and> requests_to PARCEL_URL (events s') = requests_to PARCEL_URL (events s2)"
proof (cases "py_truthy p")
  case False
  then show ?thesis by simp
next
  case True
  obtain r3 s3 where t: "its_get_trash_pickup_details net p s2 = (r3, s3)"
    by (cases "its_get_trash_pickup_details net p s2")
  from its_stage3_no_parcel_request [of net p s2] t
  have e3: "requests_to PARCEL_URL (events s3) = requests_to PARCEL_URL (events s2)"
    by (auto simp: requests_to_append)
  show ?thesis
  proof (cases r3)
    case (Raise e)
    with True t e3 show ?thesis by simp
  next
    case (Return td)
    obtain r4 s4 where f: "format_result to_str address td s3 = (r4, s4)"
      by (cases "format_result to_str address td s3")
    from format_result_trace [of to_str address td s3] f
    have "requests_to PARCEL_URL (events s4) = requests_to PARCEL_URL (events s3)"
      by (auto simp: requests_to_append requests_to_Nil)
    with True t e3 Return f show ?thesis by simp
  qed
qed

text \<open>
  C5. When the geocoding service, after any number \<open>k\<close> of 422 answers that the depth
  allows, returns exactly one candidate, a dict with the seven fields, the run of
  \<^verbatim>\<open>get_indy_trash_day\<close> has sent exactly one request to the parcel service: its query
  parameters are the seven values of the candidate, unchanged and in the order of the
  source, under the names of the candidate but for \<^verbatim>\<open>tag\<close>, sent as
  \<^verbatim>\<open>tag_id\<close>. The same holds in \<^verbatim>\<open>indy_trash_server.py\<close> for the answer to the one request
  of its Stage 1.
\<close>

theorem candidate_fields_reach_parcel_request:
  assumes "answers_after net k address s (PyDict kvs)"
    and "k < depth"
    and "map_of kvs ''addresses'' = Some (PyList [PyDict c])"
    and "map_of c ''address1'' = Some a" "map_of c ''city'' = Some ci" "map_of c ''level'' = Some le"
    "map_of c ''number'' = Some nu" "map_of c ''state'' = Some st" "map_of c ''tag'' = Some ta"
    "map_of c ''zipcode'' = Some zi"
  shows "(\<exists>r s'. get_indy_trash_day depth to_str net address s = (r, s')
            \<and> requests_to PARCEL_URL (events s') =
                requests_to PARCEL_URL (events s) @
                  [[(''address1'', a), (''city'', ci), (''level'', le), (''number'', nu),
                    (''state'', st), (''tag_id'', ta), (''zipcode'', zi)]])
       \<and> (k = 0 \<longrightarrow>
            (\<exists>r s'. its_get_indy_trash_day to_str net address s = (r, s')
               \<and> requests_to PARCEL_URL (events s') =
                   requests_to PARCEL_URL (events s) @
                     [[(''address1'', a), (''city'', ci), (''level'', le), (''number'', nu),
                       (''state'', st), (''tag_id'', ta), (''zipcode'', zi)]]))"
proof -
  let ?s0 = "logger INFO [Text (''Received request for address: '' @ address)] s"
  let ?ps = "[(''address1'', a), (''city'', ci), (''level'', le), (''number'', nu),
              (''state'', st), (''tag_id'', ta), (''zipcode'', zi)]"
  note fields = assms(4-10)
  have a: "answers_after net k address ?s0 (PyDict kvs)"
    using assms(1) by (simp add: answers_after_logger)
  have e0: "requests_to PARCEL_URL (events ?s0) = requests_to PARCEL_URL (events s)"
    by (simp add: logger_def requests_to_append requests_to_simps)
  have truthy: "py_truthy (PyDict c)" using assms(4) by auto
  have server: "\<exists>r s'. get_indy_trash_day depth to_str net address s = (r, s')
            \<and> requests_to PARCEL_URL (events s') = requests_to PARCEL_URL (events s) @ [?ps]"
  proof -
    from stage1_one_candidate [OF a assms(2,3)] obtain s1 where
      s1: "search_address depth net address ?s0 = (Return (PyDict c), s1)"
        "requests_to PARCEL_URL (events s1) = requests_to PARCEL_URL (events ?s0)"
      by blast
    from get_parcel_info_dict_trace [OF fields, of net s1] obtain p s2 evs where
      s2: "get_parcel_info net (PyDict c) s1 = (Return p, s2)"
        "events s2 = events s1 @ Request PARCEL_URL ?ps # evs" "requests evs = []"
      by blast
    have e2: "requests_to PARCEL_URL (events s2) = requests_to PARCEL_URL (events s) @ [?ps]"
      using s2(2,3) s1(2) e0
      by (simp add: requests_to_append requests_to_simps requests_to_Nil)
    from after_stage2 [where p = p and ?s2.0 = s2 and net = net and to_str = to_str and address = address] obtain r s' where
      "(if \<not> py_truthy p then (Return parcel_failure, s2)
            else (case get_trash_pickup_details net p s2 of
                    (Raise e, s3) \<Rightarrow> (Raise e, s3)
                  | (Return trash_details, s3) \<Rightarrow>
                      (if \<not> py_truthy trash_details then (Return trash_failure, s3)
                       else format_result to_str address trash_details s3)))
          = (r, s')"
      "requests_to PARCEL_URL (events s') = requests_to PARCEL_URL (events s2)"
      by blast
    with s1(1) s2(1) truthy e2 show ?thesis
      by (simp add: get_indy_trash_day_def)
  qed
  have its: "\<exists>r s'. its_get_indy_trash_day to_str net address s = (r, s')
               \<and> requests_to PARCEL_URL (events s') = requests_to PARCEL_URL (events s) @ [?ps]"
    if "k = 0"
  proof -
    let ?s1 = "?s0\<lparr>requests_sent := Suc (requests_sent ?s0),
                  events := events ?s0 @ [Request SEARCH_GIS_ADDRESS_URL (fragment_params address)]\<rparr>"
    from a that have "net (requests_sent ?s0) SEARCH_GIS_ADDRESS_URL (fragment_params address)
        = Body (PyDict kvs)"
      by (simp add: answers_after_0)
    then have "search_address_try net address ?s0 = (Return (PyDict c), ?s1)"
      using assms(3) by (intro search_address_try_one)
    from its_search_address_returns [OF this]
    have "its_search_address net address ?s0 = (Return (PyDict c), ?s1)" .
    moreover have "requests_to PARCEL_URL (events ?s1) = requests_to PARCEL_URL (events s)"
      using urls_differ [symmetric] e0 by (simp add: requests_to_append requests_to_simps)
    ultimately obtain s1 where
      s1: "its_search_address net address ?s0 = (Return (PyDict c), s1)"
      and e1: "requests_to PARCEL_URL (events s1) = requests_to PARCEL_URL (events s)"
      by blast
    from its_get_parcel_info_dict_trace [OF fields, of net s1] obtain p s2 evs where
      s2: "its_get_parcel_info net (PyDict c) s1 = (Return p, s2)"
        "events s2 = events s1 @ Request PARCEL_URL ?ps # evs" "requests evs = []"
      by blast
    have e2: "requests_to PARCEL_URL (events s2) = requests_to PARCEL_URL (events s) @ [?ps]"
      using s2(2,3) e1
      by (simp add: requests_to_append requests_to_simps requests_to_Nil)
    from its_after_stage2 [where p = p and ?s2.0 = s2 and net = net and to_str = to_str and address = address] obtain r s' where
      "(if \<not> py_truthy p then (Return parcel_failure, s2)
            else (case its_get_trash_pickup_details net p s2 of
                    (Raise e, s3) \<Rightarrow> (Raise e, s3)
                  | (Return trash_details, s3) \<Rightarrow>
                      (if \<not> py_truthy trash_details then (Return trash_failure, s3)
                       else format_result to_str address trash_details s3)))
          = (r, s')"
      "requests_to PARCEL_URL (events s') = requests_to PARCEL_URL (events s2)"
      by blast
    with s1 s2(1) truthy e2 show ?thesis
      by (simp add: its_get_indy_trash_day_def)
  qed
  from server its show ?thesis by blast
qed

lemma one_candidate_answers:
  "answers_after (net_422_once (PyDict [(''addresses'', PyList [PyDict example_candidate])]) PyNone)
     1 ''1234 Main St'' start (PyDict [(''addresses'', PyList [PyDict example_candidate])])"
  "answers_after (example_net (PyDict [(''addresses'', PyList [PyDict example_candidate])]) PyNone)
     0 ''1234 Main St'' start (PyDict [(''addresses'', PyList [PyDict example_candidate])])"
  by (simp_all add: answers_after_def start_def net_422_once_def example_net_def)

lemma example_candidate_fields:
  "map_of example_candidate ''address1'' = Some (PyStr ''1234 MAIN ST'')"
  "map_of example_candidate ''city'' = Some (PyStr ''INDIANAPOLIS'')"
  "map_of example_candidate ''level'' = Some (PyStr [])"
  "map_of example_candidate ''number'' = Some (PyStr ''1234'')"
  "map_of example_candidate ''state'' = Some (PyStr ''IN'')"
  "map_of example_candidate ''tag'' = Some (PyInt 7)"
  "map_of example_candidate ''zipcode'' = Some (PyStr ''46204'')"
  by (simp_all add: example_candidate_def)

text \<open>
  The theorem at a run of \<^verbatim>\<open>server.py\<close> with one retry, and at a run of
  \<^verbatim>\<open>indy_trash_server.py\<close>.
\<close>

theorem candidate_fields_reach_parcel_request_witness:
  "(\<exists>r s'. get_indy_trash_day example_depth example_to_str (net_422_once one_candidate PyNone)
              ''1234 Main St'' start
              = (r, s')
          \<and> requests_to PARCEL_URL (events s') =
               [[(''address1'', PyStr ''1234 MAIN ST''), (''city'', PyStr ''INDIANAPOLIS''),
                 (''level'', PyStr []), (''number'', PyStr ''1234''), (''state'', PyStr ''IN''),
                 (''tag_id'', PyInt 7), (''zipcode'', PyStr ''46204'')]])
   \<and> (\<exists>r s'. its_get_indy_trash_day example_to_str (example_net one_candidate PyNone) ''1234 Main St'' start
              = (r, s')
          \<and> requests_to PARCEL_URL (events s') =
               [[(''address1'', PyStr ''1234 MAIN ST''), (''city'', PyStr ''INDIANAPOLIS''),
                 (''level'', PyStr []), (''number'', PyStr ''1234''), (''state'', PyStr ''IN''),
                 (''tag_id'', PyInt 7), (''zipcode'', PyStr ''46204'')]])"
proof -
  have m: "map_of [(''addresses'', PyList [PyDict example_candidate])] ''addresses''
             = Some (PyList [PyDict example_candidate])" by simp
  show ?thesis
    using candidate_fields_reach_parcel_request
            [OF one_candidate_answers(1) example_depth_bounds(2) m example_candidate_fields,
             of example_to_str]
      candidate_fields_reach_parcel_request
            [OF one_candidate_answers(2) example_depth_bounds(1) m example_candidate_fields,
             of example_to_str]
    by (simp add: start_def requests_to_simps one_candidate_def)
qed

section \<open>The answer of the orchestrator\<close>

lemma trash_try_success:
  assumes "get_trash_pickup_details_try net params s = (Return v, s')" and "v \<noteq> PyNone"
  shows "py_in ''pickup_day'' v = Return True"
  using assms
  by (auto simp: get_trash_pickup_details_try_def http_get_def py_and_def bind_outcome_def
      split: response.splits outcome.splits if_splits bool.splits prod.splits)

lemma get_trash_pickup_details_success:
  assumes "get_trash_pickup_details net p s = (Return v, s')" and "v \<noteq> PyNone"
  shows "py_in ''pickup_day'' v = Return True"
proof -
  from assms obtain params s1 where "get_trash_pickup_details_try net params s = (Return v, s1)"
    by (auto simp: get_trash_pickup_details_def split: outcome.splits bool.splits prod.splits pyexc.splits)
  then show ?thesis using assms(2) by (rule trash_try_success)
qed

lemma its_get_trash_pickup_details_success:
  assumes "its_get_trash_pickup_details net p s = (Return v, s')" and "v \<noteq> PyNone"
  shows "py_in ''pickup_day'' v = Return True"
proof -
  from assms obtain params s1 where "get_trash_pickup_details_try net params s = (Return v, s1)"
    by (auto simp: its_get_trash_pickup_details_def split: outcome.splits bool.splits prod.splits pyexc.splits)
  then show ?thesis using assms(2) by (rule trash_try_success)
qed

lemma format_result_dict:
  assumes "map_of t ''pickup_day'' = Some day"
  shows "format_result to_str address (PyDict t) s =
           (Return (expected_answer to_str day (map_of t ''heavy_trash_pickup'')),
            logger INFO [Text (''Returning trash info for '' @ address @ '': ''
                               @ expected_answer to_str day (map_of t ''heavy_trash_pickup''))] s)"
  using assms
  by (simp add: format_result_def expected_answer_def Let_def split: option.splits)

text \<open>
  C3. Let the three stages succeed, Stage 3 with a record (a dict) \<open>t\<close>. Then \<open>t\<close> holds a
  pickup day, and the orchestrator returns the answer as the specification words it:
  \<^verbatim>\<open>Your regular trash pickup day is {day}.\<close>, followed by
  \<^verbatim>\<open> Heavy trash pickup: {heavy}.\<close> if and only if the heavy-trash field is there and not
  empty (true in Python's sense; for a string: not the empty string). The last event of
  the run is the log of this answer. This holds in both files.
\<close>

theorem answer_format:
  assumes "py_truthy address_details" and "py_truthy parcel_info" and "t \<noteq> []"
  shows "(search_address depth net address
            (logger INFO [Text (''Received request for address: '' @ address)] s)
              = (Return address_details, s1)
          \<and> get_parcel_info net address_details s1 = (Return parcel_info, s2)
          \<and> get_trash_pickup_details net parcel_info s2 = (Return (PyDict t), s3)
          \<longrightarrow> (\<exists>day. map_of t ''pickup_day'' = Some day
                \<and> get_indy_trash_day depth to_str net address s =
                    (Return (expected_answer to_str day (map_of t ''heavy_trash_pickup'')),
                     logger INFO [Text (''Returning trash info for '' @ address @ '': ''
                        @ expected_answer to_str day (map_of t ''heavy_trash_pickup''))] s3)))
       \<and> (its_search_address net address
            (logger INFO [Text (''Received request for address: '' @ address)] s)
              = (Return address_details, s1)
          \<and> its_get_parcel_info net address_details s1 = (Return parcel_info, s2)
          \<and> its_get_trash_pickup_details net parcel_info s2 = (Return (PyDict t), s3)
          \<longrightarrow> (\<exists>day. map_of t ''pickup_day'' = Some day
                \<and> its_get_indy_trash_day to_str net address s =
                    (Return (expected_answer to_str day (map_of t ''heavy_trash_pickup'')),
                     logger INFO [Text (''Returning trash info for '' @ address @ '': ''
                        @ expected_answer to_str day (map_of t ''heavy_trash_pickup''))] s3)))"
proof (intro conjI impI)
  assume h: "search_address depth net address
            (logger INFO [Text (''Received request for address: '' @ address)] s)
              = (Return address_details, s1)
          \<and> get_parcel_info net address_details s1 = (Return parcel_info, s2)
          \<and> get_trash_pickup_details net parcel_info s2 = (Return (PyDict t), s3)"
  then have "py_in ''pickup_day'' (PyDict t) = Return True"
    using get_trash_pickup_details_success [of net parcel_info s2 "PyDict t" s3] by simp
  then obtain day where day: "map_of t ''pickup_day'' = Some day"
    by (auto simp: image_iff dest!: weak_map_of_SomeI)
  show "\<exists>day. map_of t ''pickup_day'' = Some day
                \<and> get_indy_trash_day depth to_str net address s =
                    (Return (expected_answer to_str day (map_of t ''heavy_trash_pickup'')),
                     logger INFO [Text (''Returning trash info for '' @ address @ '': ''
                        @ expected_answer to_str day (map_of t ''heavy_trash_pickup''))] s3)"
    using h assms day
    by (intro exI [of _ day]) (simp add: get_indy_trash_day_def format_result_dict)
next
  assume h: "its_search_address net address
            (logger INFO [Text (''Received request for address: '' @ address)] s)
              = (Return address_details, s1)
          \<and> its_get_parcel_info net address_details s1 = (Return parcel_info, s2)
          \<and> its_get_trash_pickup_details net parcel_info s2 = (Return (PyDict t), s3)"
  then have "py_in ''pickup_day'' (PyDict t) = Return True"
    using its_get_trash_pickup_details_success [of net parcel_info s2 "PyDict t" s3] by simp
  then obtain day where day: "map_of t ''pickup_day'' = Some day"
    by (auto simp: image_iff dest!: weak_map_of_SomeI)
  show "\<exists>day. map_of t ''pickup_day'' = Some day
                \<and> its_get_indy_trash_day to_str net address s =
                    (Return (expected_answer to_str day (map_of t ''heavy_trash_pickup'')),
                     logger INFO [Text (''Returning trash info for '' @ address @ '': ''
                        @ expected_answer to_str day (map_of t ''heavy_trash_pickup''))] s3)"
    using h assms day
    by (intro exI [of _ day]) (simp add: its_get_indy_trash_day_def format_result_dict)
qed

lemma example_stage1:
  "search_address example_depth (example_net one_candidate sched) address s =
     (Return (PyDict example_candidate),
      s\<lparr>requests_sent := Suc (requests_sent s),
        events := events s @ [Request SEARCH_GIS_ADDRESS_URL (fragment_params address)]\<rparr>)"
  by (intro search_address_returns search_address_try_one [where kvs = "[(''addresses'', PyList [PyDict example_candidate])]"])
    (simp_all add: example_net_def one_candidate_def example_depth_def)

lemma its_example_stage1:
  "its_search_address (example_net one_candidate sched) address s =
     (Return (PyDict example_candidate),
      s\<lparr>requests_sent := Suc (requests_sent s),
        events := events s @ [Request SEARCH_GIS_ADDRESS_URL (fragment_params address)]\<rparr>)"
  by (intro its_search_address_returns search_address_try_one [where kvs = "[(''addresses'', PyList [PyDict example_candidate])]"])
    (simp_all add: example_net_def one_candidate_def)

lemma example_try2:
  "get_parcel_info_try (example_net geo sched) params s =
     (Return (PyDict example_parcel),
      s\<lparr>requests_sent := Suc (requests_sent s), events := events s @ [Request PARCEL_URL params]\<rparr>)"
  by (simp add: get_parcel_info_try_def http_get_def example_net_def urls_differ py_and_def
      bind_outcome_def example_parcel_def)

lemma example_stage2:
  "get_parcel_info (example_net geo sched) (PyDict example_candidate) s =
     (Return (PyDict example_parcel),
      s\<lparr>requests_sent := Suc (requests_sent s),
        events := events s @
          [Request PARCEL_URL
             [(''address1'', PyStr ''1234 MAIN ST''), (''city'', PyStr ''INDIANAPOLIS''),
              (''level'', PyStr []), (''number'', PyStr ''1234''), (''state'', PyStr ''IN''),
              (''tag_id'', PyInt 7), (''zipcode'', PyStr ''46204'')]]\<rparr>)"
  by (simp add: get_parcel_info_def required_keys_present [OF example_candidate_fields]
      parcel_params_dict [OF example_candidate_fields] example_try2)

lemma its_example_stage2:
  "its_get_parcel_info (example_net geo sched) (PyDict example_candidate) s =
     (Return (PyDict example_parcel),
      s\<lparr>requests_sent := Suc (requests_sent s),
        events := events s @
          [Request PARCEL_URL
             [(''address1'', PyStr ''1234 MAIN ST''), (''city'', PyStr ''INDIANAPOLIS''),
              (''level'', PyStr []), (''number'', PyStr ''1234''), (''state'', PyStr ''IN''),
              (''tag_id'', PyInt 7), (''zipcode'', PyStr ''46204'')]]\<rparr>)"
  by (simp add: its_get_parcel_info_def required_keys_present [OF example_candidate_fields]
      parcel_params_dict [OF example_candidate_fields] example_try2)

lemma example_try3:
  assumes "py_truthy sched" and "py_in ''pickup_day'' sched = Return True"
  shows "get_trash_pickup_details_try (example_net geo sched) params s =
     (Return sched,
      s\<lparr>requests_sent := Suc (requests_sent s), events := events s @ [Request TRASH_PICKUP_URL params]\<rparr>)"
  using assms
  by (simp add: get_trash_pickup_details_try_def http_get_def example_net_def urls_differ py_and_def
      bind_outcome_def)

lemma example_stage3:
  assumes "py_truthy sched" and "py_in ''pickup_day'' sched = Return True"
  shows "get_trash_pickup_details (example_net geo sched) (PyDict example_parcel) s =
     (Return sched,
      s\<lparr>requests_sent := Suc (requests_sent s),
        events := events s @ [Request TRASH_PICKUP_URL [(''x'', PyFloat 10), (''y'', PyFloat 20)]]\<rparr>)"
  by (simp add: get_trash_pickup_details_def missing_x_or_y_def trash_params_def bind_outcome_def
      example_parcel_def example_try3 [OF assms])

lemma its_example_stage3:
  assumes "py_truthy sched" and "py_in ''pickup_day'' sched = Return True"
  shows "its_get_trash_pickup_details (example_net geo sched) (PyDict example_parcel) s =
     (Return sched,
      s\<lparr>requests_sent := Suc (requests_sent s),
        events := events s @
          [Request TRASH_PICKUP_URL
             [(''__workflow_id'', PyStr WORKFLOW_ID), (''x'', PyFloat 10), (''y'', PyFloat 20)]]\<rparr>)"
  by (simp add: its_get_trash_pickup_details_def missing_x_or_y_def its_trash_params_def
      bind_outcome_def example_parcel_def example_try3 [OF assms])

text \<open>
  The theorem at the two end-to-end scenarios of the specification, in both files: pickup
  day \<^verbatim>\<open>Tuesday\<close> with heavy trash \<^verbatim>\<open>3rd Wednesday\<close>, and with an empty heavy-trash field.
\<close>

theorem answer_format_witness:
  "fst (get_indy_trash_day example_depth example_to_str (example_net one_candidate schedule_with_heavy)
          ''1234 Main Street'' start)
     = Return ''Your regular trash pickup day is Tuesday. Heavy trash pickup: 3rd Wednesday.''
   \<and> fst (get_indy_trash_day example_depth example_to_str
             (example_net one_candidate schedule_without_heavy) ''1234 Main Street'' start)
     = Return ''Your regular trash pickup day is Tuesday.''
   \<and> fst (its_get_indy_trash_day example_to_str (example_net one_candidate schedule_with_heavy)
             ''1234 Main Street'' start)
     = Return ''Your regular trash pickup day is Tuesday. Heavy trash pickup: 3rd Wednesday.''
   \<and> fst (its_get_indy_trash_day example_to_str (example_net one_candidate schedule_without_heavy)
             ''1234 Main Street'' start)
     = Return ''Your regular trash pickup day is Tuesday.''"
proof -
  let ?addr = "''1234 Main Street''"
  let ?s0 = "logger INFO [Text (''Received request for address: '' @ ?addr)] start"
  let ?s1 = "?s0\<lparr>requests_sent := Suc (requests_sent ?s0),
               events := events ?s0 @ [Request SEARCH_GIS_ADDRESS_URL (fragment_params ?addr)]\<rparr>"
  let ?s2 = "?s1\<lparr>requests_sent := Suc (requests_sent ?s1),
               events := events ?s1 @
                 [Request PARCEL_URL
                    [(''address1'', PyStr ''1234 MAIN ST''), (''city'', PyStr ''INDIANAPOLIS''),
                     (''level'', PyStr []), (''number'', PyStr ''1234''), (''state'', PyStr ''IN''),
                     (''tag_id'', PyInt 7), (''zipcode'', PyStr ''46204'')]]\<rparr>"
  let ?s3 = "?s2\<lparr>requests_sent := Suc (requests_sent ?s2),
               events := events ?s2 @
                 [Request TRASH_PICKUP_URL [(''x'', PyFloat 10), (''y'', PyFloat 20)]]\<rparr>"
  let ?s3' = "?s2\<lparr>requests_sent := Suc (requests_sent ?s2),
               events := events ?s2 @
                 [Request TRASH_PICKUP_URL
                    [(''__workflow_id'', PyStr WORKFLOW_ID), (''x'', PyFloat 10), (''y'', PyFloat 20)]]\<rparr>"
  have c: "py_truthy (PyDict example_candidate)" by (simp add: example_candidate_def)
  have p: "py_truthy (PyDict example_parcel)" by (simp add: example_parcel_def)
  have server: "\<exists>day. map_of t ''pickup_day'' = Some day
      \<and> fst (get_indy_trash_day example_depth example_to_str (example_net one_candidate (PyDict t))
                ?addr start)
          = Return (expected_answer example_to_str day (map_of t ''heavy_trash_pickup''))"
    if t: "t \<noteq> []" "py_in ''pickup_day'' (PyDict t) = Return True" for t
  proof -
    have "py_truthy (PyDict t)" using t(1) by simp
    note st3 = example_stage3 [OF this t(2), of one_candidate ?s2]
    from answer_format [OF c p t(1), THEN conjunct1, rule_format,
        OF conjI [OF example_stage1 [of "PyDict t" ?addr ?s0] conjI [OF example_stage2 [of one_candidate "PyDict t" ?s1] st3]],
        of example_to_str]
    show ?thesis by auto
  qed
  have its: "\<exists>day. map_of t ''pickup_day'' = Some day
      \<and> fst (its_get_indy_trash_day example_to_str (example_net one_candidate (PyDict t)) ?addr start)
          = Return (expected_answer example_to_str day (map_of t ''heavy_trash_pickup''))"
    if t: "t \<noteq> []" "py_in ''pickup_day'' (PyDict t) = Return True" for t
  proof -
    have "py_truthy (PyDict t)" using t(1) by simp
    note st3 = its_example_stage3 [OF this t(2), of one_candidate ?s2]
    from answer_format [OF c p t(1), THEN conjunct2, rule_format,
        OF conjI [OF its_example_stage1 [of "PyDict t" ?addr ?s0] conjI [OF its_example_stage2 [of one_candidate "PyDict t" ?s1] st3]],
        of example_to_str]
    show ?thesis by auto
  qed
  have t1: "[(''pickup_day'', PyStr ''Tuesday''), (''heavy_trash_pickup'', PyStr ''3rd Wednesday'')] \<noteq> []"
    "py_in ''pickup_day'' (PyDict [(''pickup_day'', PyStr ''Tuesday''), (''heavy_trash_pickup'', PyStr ''3rd Wednesday'')])
       = Return True"
    by simp_all
  have t2: "[(''pickup_day'', PyStr ''Tuesday''), (''heavy_trash_pickup'', PyStr [])] \<noteq> []"
    "py_in ''pickup_day'' (PyDict [(''pickup_day'', PyStr ''Tuesday''), (''heavy_trash_pickup'', PyStr [])])
       = Return True"
    by simp_all
  show ?thesis
    using server [OF t1] server [OF t2] its [OF t1] its [OF t2]
    by (simp add: schedule_with_heavy_def schedule_without_heavy_def expected_answer_def)
qed

section \<open>Failures and exceptions\<close>

text \<open>
  A stage that returns a false value makes the orchestrator return the sentence of that
  stage at once, in the state the stage left: no later stage runs.
\<close>

lemma failures_short_circuit:
  assumes "search_address depth net address
             (logger INFO [Text (''Received request for address: '' @ address)] s)
           = (Return address_details, s1)"
  shows "\<not> py_truthy address_details \<Longrightarrow>
           get_indy_trash_day depth to_str net address s = (Return address_failure, s1)"
    and "py_truthy address_details \<Longrightarrow> get_parcel_info net address_details s1 = (Return parcel_info, s2)
           \<Longrightarrow> \<not> py_truthy parcel_info
           \<Longrightarrow> get_indy_trash_day depth to_str net address s = (Return parcel_failure, s2)"
    and "py_truthy address_details \<Longrightarrow> get_parcel_info net address_details s1 = (Return parcel_info, s2)
           \<Longrightarrow> py_truthy parcel_info
           \<Longrightarrow> get_trash_pickup_details net parcel_info s2 = (Return trash_details, s3)
           \<Longrightarrow> \<not> py_truthy trash_details
           \<Longrightarrow> get_indy_trash_day depth to_str net address s = (Return trash_failure, s3)"
  using assms by (simp_all add: get_indy_trash_day_def)

lemma its_failures_short_circuit:
  assumes "its_search_address net address
             (logger INFO [Text (''Received request for address: '' @ address)] s)
           = (Return address_details, s1)"
  shows "\<not> py_truthy address_details \<Longrightarrow>
           its_get_indy_trash_day to_str net address s = (Return address_failure, s1)"
    and "py_truthy address_details \<Longrightarrow> its_get_parcel_info net address_details s1 = (Return parcel_info, s2)
           \<Longrightarrow> \<not> py_truthy parcel_info
           \<Longrightarrow> its_get_indy_trash_day to_str net address s = (Return parcel_failure, s2)"
    and "py_truthy address_details \<Longrightarrow> its_get_parcel_info net address_details s1 = (Return parcel_info, s2)
           \<Longrightarrow> py_truthy parcel_info
           \<Longrightarrow> its_get_trash_pickup_details net parcel_info s2 = (Return trash_details, s3)
           \<Longrightarrow> \<not> py_truthy trash_details
           \<Longrightarrow> its_get_indy_trash_day to_str net address s = (Return trash_failure, s3)"
  using assms by (simp_all add: its_get_indy_trash_day_def)

text \<open>
  Stage 1 catches every exception. Stage 2, Stage 3 and the last step of the
  orchestrator raise nothing when the value they are given is a dict.
\<close>

lemma search_address_no_raise:
  "\<exists>v. fst (search_address depth net frag s) = Return v"
proof (induction depth arbitrary: frag s)
  case 0
  then show ?case by simp
next
  case (Suc depth)
  obtain r s1 where t: "search_address_try net frag s = (r, s1)"
    by (cases "search_address_try net frag s")
  show ?case
  proof (cases r)
    case (Return v)
    with t show ?thesis by simp
  next
    case (Raise e)
    with t Suc.IH show ?thesis by (cases e) simp_all
  qed
qed

lemma its_search_address_no_raise: "\<exists>v. fst (its_search_address net frag s) = Return v"
  by (auto simp: its_search_address_def split: prod.splits outcome.splits pyexc.splits)

lemma parcel_params_all_keys:
  assumes "set required_keys \<subseteq> set (map fst c)"
  shows "\<exists>ps. parcel_params (PyDict c) = Return ps"
proof -
  have "\<exists>v. map_of c k = Some v" if "k \<in> set required_keys" for k
    using that assms by (metis map_of_eq_None_iff not_Some_eq set_map subsetD)
  then obtain a ci le nu st ta zi where
    "map_of c ''address1'' = Some a" "map_of c ''city'' = Some ci" "map_of c ''level'' = Some le"
    "map_of c ''number'' = Some nu" "map_of c ''state'' = Some st" "map_of c ''tag'' = Some ta"
    "map_of c ''zipcode'' = Some zi"
    unfolding required_keys_def by (metis list.set_intros(1) list.set_intros(2))
  from parcel_params_dict [OF this] show ?thesis by blast
qed

lemma get_parcel_info_dict_no_raise:
  "\<exists>v. fst (get_parcel_info net (PyDict c) s) = Return v"
proof (cases "set required_keys \<subseteq> set (map fst c)")
  case False
  then show ?thesis by (simp add: get_parcel_info_missing)
next
  case True
  from parcel_params_all_keys [OF True] obtain ps where "parcel_params (PyDict c) = Return ps" ..
  with True show ?thesis
    by (auto simp: get_parcel_info_def py_all_in_dict split: prod.splits outcome.splits pyexc.splits)
qed

lemma its_get_parcel_info_dict_no_raise:
  "\<exists>v. fst (its_get_parcel_info net (PyDict c) s) = Return v"
proof (cases "set required_keys \<subseteq> set (map fst c)")
  case False
  then show ?thesis by (simp add: its_get_parcel_info_missing)
next
  case True
  from parcel_params_all_keys [OF True] obtain ps where "parcel_params (PyDict c) = Return ps" ..
  with True show ?thesis
    by (auto simp: its_get_parcel_info_def py_all_in_dict split: prod.splits outcome.splits pyexc.splits)
qed

lemma in_keys_map_of: "k \<in> set (map fst p) \<Longrightarrow> \<exists>v. map_of p k = Some v"
  by (metis map_of_eq_None_iff not_Some_eq set_map)

lemma get_trash_pickup_details_dict_no_raise:
  "\<exists>v. fst (get_trash_pickup_details net (PyDict p) s) = Return v"
proof (cases "''x'' \<in> set (map fst p) \<and> ''y'' \<in> set (map fst p)")
  case False
  then have "missing_x_or_y (PyDict p) = Return True"
    by (auto simp: missing_x_or_y_def bind_outcome_def)
  then show ?thesis by (simp add: get_trash_pickup_details_def)
next
  case True
  have "\<exists>v. map_of p ''x'' = Some v" "\<exists>v. map_of p ''y'' = Some v"
    by (rule in_keys_map_of, use True in simp)+
  then obtain vx vy where v: "map_of p ''x'' = Some vx" "map_of p ''y'' = Some vy"
    by (elim exE)
  from True have m: "missing_x_or_y (PyDict p) = Return False"
    by (simp add: missing_x_or_y_def bind_outcome_def)
  from v have ps: "trash_params (PyDict p) = Return [(''x'', vx), (''y'', vy)]"
    by (simp add: trash_params_def bind_outcome_def)
  obtain r s1 where t: "get_trash_pickup_details_try net [(''x'', vx), (''y'', vy)] s = (r, s1)"
    by (cases "get_trash_pickup_details_try net [(''x'', vx), (''y'', vy)] s")
  show ?thesis
  proof (cases r)
    case (Return v)
    with m ps t show ?thesis by (simp add: get_trash_pickup_details_def)
  next
    case (Raise e)
    with m ps t show ?thesis by (cases e) (simp_all add: get_trash_pickup_details_def)
  qed
qed

lemma its_get_trash_pickup_details_dict_no_raise:
  "\<exists>v. fst (its_get_trash_pickup_details net (PyDict p) s) = Return v"
proof (cases "''x'' \<in> set (map fst p) \<and> ''y'' \<in> set (map fst p)")
  case False
  then have "missing_x_or_y (PyDict p) = Return True"
    by (auto simp: missing_x_or_y_def bind_outcome_def)
  then show ?thesis by (simp add: its_get_trash_pickup_details_def)
next
  case True
  have "\<exists>v. map_of p ''x'' = Some v" "\<exists>v. map_of p ''y'' = Some v"
    by (rule in_keys_map_of, use True in simp)+
  then obtain vx vy where v: "map_of p ''x'' = Some vx" "map_of p ''y'' = Some vy"
    by (elim exE)
  from True have m: "missing_x_or_y (PyDict p) = Return False"
    by (simp add: missing_x_or_y_def bind_outcome_def)
  from v have ps: "its_trash_params (PyDict p) = Return [(''__workflow_id'', PyStr WORKFLOW_ID), (''x'', vx), (''y'', vy)]"
    by (simp add: its_trash_params_def bind_outcome_def)
  obtain r s1 where t: "get_trash_pickup_details_try net [(''__workflow_id'', PyStr WORKFLOW_ID), (''x'', vx), (''y'', vy)] s = (r, s1)"
    by (cases "get_trash_pickup_details_try net [(''__workflow_id'', PyStr WORKFLOW_ID), (''x'', vx), (''y'', vy)] s")
  show ?thesis
  proof (cases r)
    case (Return v)
    with m ps t show ?thesis by (simp add: its_get_trash_pickup_details_def)
  next
    case (Raise e)
    with m ps t show ?thesis by (cases e) (simp_all add: its_get_trash_pickup_details_def)
  qed
qed

lemma format_result_dict_no_raise:
  "\<exists>v. fst (format_result to_str address (PyDict t) s) = Return v"
  by (simp add: format_result_def Let_def)

text \<open>
  C1. The claim: for every address and every combination of stage outcomes
  \<^verbatim>\<open>get_indy_trash_day\<close> returns a string and never raises. The code: Stage 3 hands on
  any body that is true and of which \<^verbatim>\<open>"pickup_day" in data\<close> holds, so also a list with
  that element or a str with that substring; the orchestrator then calls \<^verbatim>\<open>.get\<close> on it,
  outside any \<^verbatim>\<open>try\<close>. With the schedule body \<^verbatim>\<open>["pickup_day"]\<close> an
  \<^verbatim>\<open>AttributeError\<close> leaves \<^verbatim>\<open>get_indy_trash_day\<close>, in both files.
\<close>

theorem get_indy_trash_day_raises:
  "fst (get_indy_trash_day example_depth to_str
          (example_net one_candidate (PyList [PyStr ''pickup_day''])) ''1234 Main Street'' start)
     = Raise AttributeError
   \<and> fst (its_get_indy_trash_day to_str (example_net one_candidate (PyList [PyStr ''pickup_day'']))
             ''1234 Main Street'' start)
     = Raise AttributeError"
proof -
  have t: "py_truthy (PyList [PyStr ''pickup_day''])"
    "py_in ''pickup_day'' (PyList [PyStr ''pickup_day'']) = Return True"
    by simp_all
  have c: "py_truthy (PyDict example_candidate)" by (simp add: example_candidate_def)
  have p: "py_truthy (PyDict example_parcel)" by (simp add: example_parcel_def)
  have a: "fst (get_indy_trash_day example_depth to_str
                  (example_net one_candidate (PyList [PyStr ''pickup_day''])) ''1234 Main Street'' start)
             = Raise AttributeError"
    using t(1) c p
    by (simp add: get_indy_trash_day_def example_stage1 example_stage2 example_stage3 [OF t]
        format_result_def)
  have b: "fst (its_get_indy_trash_day to_str (example_net one_candidate (PyList [PyStr ''pickup_day'']))
             ''1234 Main Street'' start) = Raise AttributeError"
    using t(1) c p
    by (simp add: its_get_indy_trash_day_def its_example_stage1 its_example_stage2
        its_example_stage3 [OF t] format_result_def)
  from a b show ?thesis by simp
qed

end
